theory Spec2Isabelle
  imports Complex_Main "HOL-Library.Sublist"
begin

section \<open>The Monday.com gateway example (monday_server.py)\<close>

text \<open>
  A shallow embedding of \<^verbatim>\<open>MondayMCPServer\<close>. Python's mutation of \<^verbatim>\<open>self\<close> is
  explicit state passing: a function takes the state and returns its result together with
  the state it leaves behind, also when it raises. An exception is a value of \<open>py_exn\<close>
  on the left of a sum. The clock (\<^verbatim>\<open>time.time()\<close>) and the reply of the upstream
  HTTP call are inputs of the functions that read them.
\<close>

subsection \<open>Values and exceptions\<close>

text \<open>
  Values that travel through requests, parameters and upstream replies are the values
  \<^verbatim>\<open>json\<close> decodes to. A Python dict with string keys is an association list read
  with \<open>map_of\<close>. Wall-clock seconds are Python floats; they are modelled as exact reals.
\<close>

type_synonym timestamp = real

datatype json =
    JNull
  | JBool bool
  | JNum real
  | JStr string
  | JArr "json list"
  | JObj "(string \<times> json) list"

text \<open>
  Every deliberate failure of the source is \<^verbatim>\<open>raise ValueError(text)\<close>; \<open>message\<close> has
  one constructor for each text, carrying the value formatted into it.
\<close>

datatype message =
    RateLimitExceeded timestamp  \<comment> \<open>\<^verbatim>\<open>Rate limit exceeded. Resets at {reset_time}\<close>\<close>
  | TooManyConcurrent            \<comment> \<open>\<^verbatim>\<open>Too many concurrent requests. Please try again.\<close>\<close>
  | MondayApiError json          \<comment> \<open>\<^verbatim>\<open>Monday.com API Error: {message}\<close>\<close>
  | ResourceNotFound json        \<comment> \<open>\<^verbatim>\<open>Resource {resource_id} not found\<close>\<close>
  | ToolNotFound json            \<comment> \<open>\<^verbatim>\<open>Tool {name} not found\<close>\<close>
  | PromptNotFound json          \<comment> \<open>\<^verbatim>\<open>Prompt {prompt_id} not found\<close>\<close>
  | UnsupportedMethod json       \<comment> \<open>\<^verbatim>\<open>Unsupported method: {method}\<close>\<close>
  | ParameterRequired string     \<comment> \<open>\<^verbatim>\<open>{field} parameter is required\<close>\<close>
  | BoardIdAndStatusRequired     \<comment> \<open>\<^verbatim>\<open>board_id and status parameters are required\<close>\<close>
  | StatusColumnNotFound         \<comment> \<open>\<^verbatim>\<open>Status column not found on this board\<close>\<close>

datatype py_exn =
    ValueError message
  | KeyError json        \<comment> \<open>a dict subscript with an absent key; carries the key\<close>
  | IndexError           \<comment> \<open>\<^verbatim>\<open>x[0]\<close> on an empty list or string\<close>
  | TypeError            \<comment> \<open>an operation the value's type does not support\<close>
  | AttributeError       \<comment> \<open>a method the value's type does not have\<close>
  | TransportError       \<comment> \<open>anything raised by the HTTP session, the POST or the body decoding\<close>

subsection \<open>Rate limiting state\<close>

record rate_limits =
  daily_remaining :: int
  reset_time :: timestamp
  active_requests :: int

text \<open>The state \<^verbatim>\<open>__init__\<close> builds when the clock reads \<open>now\<close>.\<close>

definition init_rate_limits :: "timestamp \<Rightarrow> rate_limits" where
  "init_rate_limits now =
     \<lparr>daily_remaining = 1000, reset_time = now + 86400, active_requests = 0\<rparr>"

text \<open>
  \<^verbatim>\<open>_check_rate_limit\<close>. It reads no clock. The pair is what the call raises or returns,
  and the state after the call. (\<^verbatim>\<open>datetime.fromtimestamp\<close> is taken to accept the stored
  reset time, which is always a clock reading plus one day.)
\<close>

definition check_rate_limit :: "rate_limits \<Rightarrow> (py_exn + bool) \<times> rate_limits" where
  "check_rate_limit rl =
     (if daily_remaining rl \<le> 0 then
        (Inl (ValueError (RateLimitExceeded (reset_time rl))), rl)
      else if active_requests rl \<ge> 10 then
        (Inl (ValueError TooManyConcurrent), rl)
      else
        (Inr True,
         rl\<lparr>daily_remaining := daily_remaining rl - 1,
            active_requests := active_requests rl + 1\<rparr>))"

text \<open>\<^verbatim>\<open>_release_rate_limit\<close>.\<close>

definition release_rate_limit :: "rate_limits \<Rightarrow> rate_limits" where
  "release_rate_limit rl = rl\<lparr>active_requests := active_requests rl - 1\<rparr>"

text \<open>
  A client of the limiter issues acquires and releases in some order. A release is
  correctly paired when a permit is outstanding: \<open>held\<close> counts the acquires that
  succeeded and have not been released. An acquire that raises leaves the client without a
  permit and the run goes on; an unpaired release ends the run with \<open>None\<close>.
\<close>

datatype limiter_op = Acquire | Release

fun run_ops :: "limiter_op list \<Rightarrow> nat \<times> rate_limits \<Rightarrow> (nat \<times> rate_limits) option" where
  "run_ops [] s = Some s"
| "run_ops (Acquire # ops) (held, rl) =
     (case check_rate_limit rl of
        (Inr _, rl') \<Rightarrow> run_ops ops (Suc held, rl')
      | (Inl _, rl') \<Rightarrow> run_ops ops (held, rl'))"
| "run_ops (Release # ops) (held, rl) =
     (if held = 0 then None else run_ops ops (held - 1, release_rate_limit rl))"

definition quota_inv :: "nat \<times> rate_limits \<Rightarrow> bool" where
  "quota_inv s = (case s of (held, rl) \<Rightarrow>
     active_requests rl = int held \<and> active_requests rl \<le> 10 \<and> 0 \<le> daily_remaining rl)"

subsection \<open>Python's operations on decoded values\<close>

fun and_then :: "py_exn + 'a \<Rightarrow> ('a \<Rightarrow> py_exn + 'b) \<Rightarrow> py_exn + 'b" where
  "and_then (Inl e) f = Inl e"
| "and_then (Inr x) f = f x"

text \<open>\<^verbatim>\<open>p in s\<close> on two strings: \<open>p\<close> occurs in \<open>s\<close>.\<close>

fun occurs_in :: "string \<Rightarrow> string \<Rightarrow> bool" where
  "occurs_in p [] = (p = [])"
| "occurs_in p (c # cs) = (prefix p (c # cs) \<or> occurs_in p cs)"

text \<open>\<^verbatim>\<open>k in v\<close> for a string \<open>k\<close>: a key of a dict, an element of a list, a substring.\<close>

fun py_contains :: "string \<Rightarrow> json \<Rightarrow> py_exn + bool" where
  "py_contains k (JObj kvs) = Inr (k \<in> fst ` set kvs)"
| "py_contains k (JArr xs) = Inr (JStr k \<in> set xs)"
| "py_contains k (JStr s) = Inr (occurs_in k s)"
| "py_contains k _ = Inl TypeError"

text \<open>\<^verbatim>\<open>v[k]\<close> for a string \<open>k\<close>: only a dict can be subscripted with a string.\<close>

fun py_getitem :: "json \<Rightarrow> string \<Rightarrow> py_exn + json" where
  "py_getitem (JObj kvs) k =
     (case map_of kvs k of None \<Rightarrow> Inl (KeyError (JStr k)) | Some v \<Rightarrow> Inr v)"
| "py_getitem _ k = Inl TypeError"

text \<open>\<^verbatim>\<open>v[0]\<close>. The keys of a decoded dict are strings, so \<open>0\<close> is never one of them.\<close>

fun py_first :: "json \<Rightarrow> py_exn + json" where
  "py_first (JArr []) = Inl IndexError"
| "py_first (JArr (x # xs)) = Inr x"
| "py_first (JStr []) = Inl IndexError"
| "py_first (JStr (c # cs)) = Inr (JStr [c])"
| "py_first (JObj kvs) = Inl (KeyError (JNum 0))"
| "py_first _ = Inl TypeError"

text \<open>\<^verbatim>\<open>v.get(k, d)\<close>: a method of dicts only.\<close>

fun py_get :: "json \<Rightarrow> string \<Rightarrow> json \<Rightarrow> py_exn + json" where
  "py_get (JObj kvs) k d = Inr (case map_of kvs k of None \<Rightarrow> d | Some v \<Rightarrow> v)"
| "py_get _ k d = Inl AttributeError"

text \<open>\<^verbatim>\<open>for x in v\<close>: the elements of a list, the keys of a dict, the characters of a string.\<close>

fun py_iter :: "json \<Rightarrow> py_exn + json list" where
  "py_iter (JArr xs) = Inr xs"
| "py_iter (JObj kvs) = Inr (map (\<lambda>kv. JStr (fst kv)) kvs)"
| "py_iter (JStr s) = Inr (map (\<lambda>c. JStr [c]) s)"
| "py_iter _ = Inl TypeError"

text \<open>
  A value used as the key of a Python dict: lists and dicts are unhashable, and \<^verbatim>\<open>True\<close>
  and \<^verbatim>\<open>False\<close> are the keys \<open>1\<close> and \<open>0\<close>.
\<close>

datatype pykey = KNone | KNum real | KStr string

fun hash_key :: "json \<Rightarrow> py_exn + pykey" where
  "hash_key JNull = Inr KNone"
| "hash_key (JBool b) = Inr (KNum (if b then 1 else 0))"
| "hash_key (JNum r) = Inr (KNum r)"
| "hash_key (JStr s) = Inr (KStr s)"
| "hash_key (JArr xs) = Inl TypeError"
| "hash_key (JObj kvs) = Inl TypeError"

subsection \<open>The server state\<close>

record cache_entry =
  timestamp :: timestamp
  data :: json

text \<open>
  The calls a request makes, in order. \<open>calls\<close> is not a field of the source: it records
  each call of \<^verbatim>\<open>_check_rate_limit\<close>, each HTTP POST and each call of
  \<^verbatim>\<open>_release_rate_limit\<close>, so that how often they happen can be stated.
\<close>

datatype call = CheckRateLimit | Post | ReleaseRateLimit

record server =
  rate_limits :: rate_limits
  boards :: "string \<rightharpoonup> cache_entry"
  board_structure :: "string \<rightharpoonup> cache_entry"
  items :: "pykey \<rightharpoonup> cache_entry"
  users :: "pykey \<rightharpoonup> cache_entry"
  calls :: "call list"

definition init_server :: "timestamp \<Rightarrow> server" where
  "init_server now =
     \<lparr>rate_limits = init_rate_limits now, boards = Map.empty, board_structure = Map.empty,
      items = Map.empty, users = Map.empty, calls = []\<rparr>"

subsection \<open>The upstream call\<close>

text \<open>
  What the HTTP exchange of \<^verbatim>\<open>query_monday_api\<close> does: the session, the POST or the
  decoding of the body raises, or the body decodes to a value. The query text does not
  decide anything in the server, so the reply is an input and every reply is possible.
\<close>

datatype upstream = Fails | Replies json

text \<open>Lines 65 to 68: the decoded body is an error report or carries the data.\<close>

definition read_reply :: "json \<Rightarrow> py_exn + json" where
  "read_reply result =
     and_then (py_contains ''errors'' result) (\<lambda>has_errors.
       if has_errors then
         and_then (py_getitem result ''errors'') (\<lambda>errors.
         and_then (py_first errors) (\<lambda>first_error.
         and_then (py_getitem first_error ''message'') (\<lambda>msg.
           Inl (ValueError (MondayApiError msg)))))
       else py_getitem result ''data'')"

definition server_check :: "server \<Rightarrow> (py_exn + bool) \<times> server" where
  "server_check st =
     (case check_rate_limit (rate_limits st) of
        (r, rl') \<Rightarrow> (r, st\<lparr>rate_limits := rl', calls := calls st @ [CheckRateLimit]\<rparr>))"

definition server_release :: "server \<Rightarrow> server" where
  "server_release st =
     st\<lparr>rate_limits := release_rate_limit (rate_limits st),
        calls := calls st @ [ReleaseRateLimit]\<rparr>"

text \<open>
  \<^verbatim>\<open>query_monday_api\<close>: the check stands before the \<^verbatim>\<open>try\<close>, so when it raises nothing
  else runs; everything after it is inside \<^verbatim>\<open>try ... finally\<close>, so the release runs
  whatever the exchange does.
\<close>

definition query_monday_api :: "server \<Rightarrow> upstream \<Rightarrow> (py_exn + json) \<times> server" where
  "query_monday_api st up =
     (case server_check st of
        (Inl e, st1) \<Rightarrow> (Inl e, st1)
      | (Inr _, st1) \<Rightarrow>
          (let st2 = st1\<lparr>calls := calls st1 @ [Post]\<rparr>;
               outcome = (case up of Fails \<Rightarrow> Inl TransportError
                          | Replies result \<Rightarrow> read_reply result)
           in (outcome, server_release st2)))"

subsection \<open>Sequencing\<close>

text \<open>
  A call that can raise and can change the server gives its outcome and the server it
  leaves. \<open>try_pure\<close> continues after an expression that only computes; \<open>then_run\<close>
  continues after a call that may have changed the server. Both stop at the first raise.
\<close>

definition try_pure ::
  "py_exn + 'a \<Rightarrow> server \<Rightarrow> ('a \<Rightarrow> (py_exn + 'b) \<times> server) \<Rightarrow> (py_exn + 'b) \<times> server" where
  "try_pure r st f = (case r of Inl e \<Rightarrow> (Inl e, st) | Inr x \<Rightarrow> f x)"

definition then_run ::
  "(py_exn + 'a) \<times> server \<Rightarrow> ('a \<Rightarrow> server \<Rightarrow> (py_exn + 'b) \<times> server)
     \<Rightarrow> (py_exn + 'b) \<times> server" where
  "then_run m f = (case m of (Inl e, st) \<Rightarrow> (Inl e, st) | (Inr x, st) \<Rightarrow> f x st)"

subsection \<open>Responses\<close>

text \<open>
  The dicts the server returns. \<open>Content d\<close> is \<^verbatim>\<open>{"content": json.dumps(d)}\<close>;
  \<open>PromptContent p\<close> is \<^verbatim>\<open>{"content": json.dumps(...)}\<close> of the literal descriptor
  written out in \<^verbatim>\<open>read_prompt\<close> for the prompt \<open>p\<close>; \<open>Result r\<close> is
  \<^verbatim>\<open>{"result": r}\<close>. A catalog entry of resources and prompts is (id, name,
  description); of tools it is (name, description), the parameter schema being a literal.
\<close>

datatype response =
    Resources "(string \<times> string \<times> string) list"
  | Tools "(string \<times> string) list"
  | Prompts "(string \<times> string \<times> string) list"
  | Content json
  | PromptContent string
  | Result json

text \<open>\<^verbatim>\<open>json.loads(r["content"])\<close>: decoding gives back the value that was dumped.\<close>

fun loads_content :: "response \<Rightarrow> py_exn + json" where
  "loads_content (Content d) = Inr d"
| "loads_content _ = Inl (KeyError (JStr ''content''))"

subsection \<open>Resources\<close>

text \<open>\<^verbatim>\<open>list_resources\<close>.\<close>

definition list_resources :: response where
  "list_resources = Resources
     [(''list_boards'', ''Boards'', ''List all accessible boards''),
      (''get_board_structure'', ''Board Structure'', ''Get the structure of a specific board''),
      (''list_items_by_board'', ''Items by Board'', ''List all items in a specific board''),
      (''list_items_by_status'', ''Items by Status'', ''List items filtered by status''),
      (''list_overdue_items'', ''Overdue Items'', ''List items past their due dates''),
      (''get_user_details'', ''User Details'', ''Get details about team members''),
      (''get_user_workload'', ''User Workload'', ''View task distribution across team members'')]"

text \<open>
  The test that guards the three cached reads,
  \<^verbatim>\<open>key in cache and cache[key]["timestamp"] > time.time() - 300\<close>, with the data it
  lets through; \<open>now\<close> is the reading of \<^verbatim>\<open>time.time()\<close>.
\<close>

definition cached :: "('k \<rightharpoonup> cache_entry) \<Rightarrow> 'k \<Rightarrow> timestamp \<Rightarrow> json option" where
  "cached c k now =
     (case c k of
        None \<Rightarrow> None
      | Some e \<Rightarrow> if timestamp e > now - 300 then Some (data e) else None)"

text \<open>
  \<^verbatim>\<open>list_boards\<close>. \<open>now\<close> is the clock at the cache test, \<open>up\<close> the outcome of the
  upstream exchange, \<open>stored\<close> the clock when the entry is written.
\<close>

definition list_boards ::
  "server \<Rightarrow> json \<Rightarrow> timestamp \<Rightarrow> upstream \<Rightarrow> timestamp \<Rightarrow> (py_exn + response) \<times> server" where
  "list_boards st parameters now up stored =
     (case cached (boards st) ''all'' now of
        Some d \<Rightarrow> (Inr (Content d), st)
      | None \<Rightarrow>
          then_run (query_monday_api st up) (\<lambda>result st1.
          try_pure (py_getitem result ''boards'') st1 (\<lambda>bs.
            (Inr (Content bs),
             st1\<lparr>boards := (boards st1)(''all'' \<mapsto> \<lparr>timestamp = stored, data = bs\<rparr>)\<rparr>))))"

text \<open>
  \<^verbatim>\<open>get_board_structure\<close>. \<open>str_of\<close> is Python's formatting of a value inside an
  f-string, a builtin.
\<close>

definition get_board_structure ::
  "server \<Rightarrow> json \<Rightarrow> timestamp \<Rightarrow> upstream \<Rightarrow> timestamp \<Rightarrow> (json \<Rightarrow> string)
     \<Rightarrow> (py_exn + response) \<times> server" where
  "get_board_structure st parameters now up stored str_of =
     try_pure (py_contains ''board_id'' parameters) st (\<lambda>has_board_id.
       if \<not> has_board_id then (Inl (ValueError (ParameterRequired ''board_id'')), st)
       else
         try_pure (py_getitem parameters ''board_id'') st (\<lambda>board_id.
           let cache_key = ''structure-'' @ str_of board_id in
           case cached (board_structure st) cache_key now of
             Some d \<Rightarrow> (Inr (Content d), st)
           | None \<Rightarrow>
               then_run (query_monday_api st up) (\<lambda>result st1.
               try_pure (and_then (py_getitem result ''boards'') py_first) st1 (\<lambda>bs.
                 (Inr (Content bs),
                  st1\<lparr>board_structure :=
                        (board_structure st1)(cache_key \<mapsto> \<lparr>timestamp = stored, data = bs\<rparr>)\<rparr>)))))"

text \<open>\<^verbatim>\<open>list_items_by_board\<close>.\<close>

definition list_items_by_board ::
  "server \<Rightarrow> json \<Rightarrow> upstream \<Rightarrow> (py_exn + response) \<times> server" where
  "list_items_by_board st parameters up =
     try_pure (py_contains ''board_id'' parameters) st (\<lambda>has_board_id.
       if \<not> has_board_id then (Inl (ValueError (ParameterRequired ''board_id'')), st)
       else
         try_pure (py_getitem parameters ''board_id'') st (\<lambda>board_id.
         then_run (query_monday_api st up) (\<lambda>result st1.
         try_pure (and_then (py_getitem result ''boards'') py_first) st1 (\<lambda>b.
           (Inr (Content b), st1)))))"

text \<open>
  The generator of \<^verbatim>\<open>list_items_by_status\<close>: the first column whose \<^verbatim>\<open>type\<close> is
  \<^verbatim>\<open>"status"\<close>, or \<^verbatim>\<open>None\<close>.
\<close>

fun find_status_column :: "json list \<Rightarrow> py_exn + json option" where
  "find_status_column [] = Inr None"
| "find_status_column (col # cols) =
     and_then (py_getitem col ''type'') (\<lambda>t.
       if t = JStr ''status'' then Inr (Some col) else find_status_column cols)"

text \<open>Truth of a value in a condition.\<close>

fun py_truthy :: "json \<Rightarrow> bool" where
  "py_truthy JNull = False"
| "py_truthy (JBool b) = b"
| "py_truthy (JNum r) = (r \<noteq> 0)"
| "py_truthy (JStr s) = (s \<noteq> [])"
| "py_truthy (JArr xs) = (xs \<noteq> [])"
| "py_truthy (JObj kvs) = (kvs \<noteq> [])"

text \<open>\<^verbatim>\<open>v.lower()\<close>: a method of strings; \<open>lower\<close> is the builtin on strings.\<close>

fun py_lower :: "(string \<Rightarrow> string) \<Rightarrow> json \<Rightarrow> py_exn + string" where
  "py_lower lower (JStr s) = Inr (lower s)"
| "py_lower lower _ = Inl AttributeError"

text \<open>The list comprehension of \<^verbatim>\<open>list_items_by_status\<close>.\<close>

fun filter_by_status :: "(string \<Rightarrow> string) \<Rightarrow> json \<Rightarrow> json list \<Rightarrow> py_exn + json list" where
  "filter_by_status lower status [] = Inr []"
| "filter_by_status lower status (item # rest) =
     and_then (py_getitem item ''column_values'') (\<lambda>cvs.
     and_then (py_first cvs) (\<lambda>cv.
     and_then (py_getitem cv ''text'') (\<lambda>text.
     and_then (py_lower lower text) (\<lambda>l.
     and_then (py_lower lower status) (\<lambda>s.
     and_then (filter_by_status lower status rest) (\<lambda>kept.
       Inr (if l = s then item # kept else kept)))))))"

text \<open>
  \<^verbatim>\<open>list_items_by_status\<close>. \<open>structure_up\<close> is the outcome of the exchange made by the
  nested \<^verbatim>\<open>get_board_structure\<close>, \<open>up\<close> that of the handler's own query.
\<close>

definition list_items_by_status ::
  "server \<Rightarrow> json \<Rightarrow> timestamp \<Rightarrow> upstream \<Rightarrow> timestamp \<Rightarrow> (json \<Rightarrow> string) \<Rightarrow> upstream
     \<Rightarrow> (string \<Rightarrow> string) \<Rightarrow> (py_exn + response) \<times> server" where
  "list_items_by_status st parameters now structure_up stored str_of up lower =
     try_pure (py_contains ''board_id'' parameters) st (\<lambda>has_board_id.
       if \<not> has_board_id then (Inl (ValueError BoardIdAndStatusRequired), st)
       else
         try_pure (py_contains ''status'' parameters) st (\<lambda>has_status.
           if \<not> has_status then (Inl (ValueError BoardIdAndStatusRequired), st)
           else
             try_pure (py_getitem parameters ''board_id'') st (\<lambda>board_id.
             try_pure (py_getitem parameters ''status'') st (\<lambda>status.
             then_run (get_board_structure st (JObj [(''board_id'', board_id)])
                         now structure_up stored str_of) (\<lambda>board_structure_result st1.
             try_pure (loads_content board_structure_result) st1 (\<lambda>board_structure.
             try_pure (and_then (py_getitem board_structure ''columns'') (\<lambda>cols.
                       and_then (py_iter cols) find_status_column)) st1 (\<lambda>status_column.
               case status_column of
                 None \<Rightarrow> (Inl (ValueError StatusColumnNotFound), st1)
               | Some col \<Rightarrow>
                   if \<not> py_truthy col then (Inl (ValueError StatusColumnNotFound), st1)
                   else
                     try_pure (py_getitem col ''id'') st1 (\<lambda>column_id.
                     then_run (query_monday_api st1 up) (\<lambda>result st2.
                     try_pure (and_then (py_getitem result ''boards'') (\<lambda>bs.
                               and_then (py_first bs) (\<lambda>b.
                               and_then (py_getitem b ''items'') (\<lambda>its.
                               and_then (py_iter its) (filter_by_status lower status))))) st2
                       (\<lambda>filtered_items. (Inr (Content (JArr filtered_items)), st2)))))))))))"

text \<open>\<^verbatim>\<open>list_overdue_items\<close>.\<close>

definition list_overdue_items ::
  "server \<Rightarrow> json \<Rightarrow> upstream \<Rightarrow> (py_exn + response) \<times> server" where
  "list_overdue_items st parameters up =
     then_run (query_monday_api st up) (\<lambda>result st1.
     try_pure (py_getitem result ''items_by_column_values'') st1 (\<lambda>its.
       (Inr (Content its), st1)))"

text \<open>\<^verbatim>\<open>get_user_details\<close>. The cache of users is keyed by the \<^verbatim>\<open>user_id\<close> itself.\<close>

definition get_user_details ::
  "server \<Rightarrow> json \<Rightarrow> timestamp \<Rightarrow> upstream \<Rightarrow> timestamp \<Rightarrow> (py_exn + response) \<times> server" where
  "get_user_details st parameters now up stored =
     try_pure (py_contains ''user_id'' parameters) st (\<lambda>has_user_id.
       if \<not> has_user_id then (Inl (ValueError (ParameterRequired ''user_id'')), st)
       else
         try_pure (py_getitem parameters ''user_id'') st (\<lambda>user_id.
         try_pure (hash_key user_id) st (\<lambda>k.
           case cached (users st) k now of
             Some d \<Rightarrow> (Inr (Content d), st)
           | None \<Rightarrow>
               then_run (query_monday_api st up) (\<lambda>result st1.
               try_pure (and_then (py_getitem result ''users'') py_first) st1 (\<lambda>u.
                 (Inr (Content u),
                  st1\<lparr>users := (users st1)(k \<mapsto> \<lparr>timestamp = stored, data = u\<rparr>)\<rparr>))))))"

text \<open>\<^verbatim>\<open>get_user_workload\<close>.\<close>

definition get_user_workload ::
  "server \<Rightarrow> json \<Rightarrow> upstream \<Rightarrow> (py_exn + response) \<times> server" where
  "get_user_workload st parameters up =
     try_pure (py_contains ''user_id'' parameters) st (\<lambda>has_user_id.
       if \<not> has_user_id then (Inl (ValueError (ParameterRequired ''user_id'')), st)
       else
         try_pure (py_getitem parameters ''user_id'') st (\<lambda>user_id.
         then_run (query_monday_api st up) (\<lambda>result st1.
         try_pure (py_getitem result ''items_by_person_id'') st1 (\<lambda>its.
           (Inr (Content its), st1)))))"

text \<open>
  What a request reads from outside the server: the clock at the cache test and at the
  cache write, the outcome of the handler's own upstream exchange and of the one nested in
  \<^verbatim>\<open>list_items_by_status\<close>, and the two builtins on strings.
\<close>

record env =
  clock_check :: timestamp
  clock_store :: timestamp
  reply :: upstream
  structure_reply :: upstream
  py_str :: "json \<Rightarrow> string"
  str_lower :: "string \<Rightarrow> string"

text \<open>The dict \<^verbatim>\<open>resource_handlers\<close> of \<^verbatim>\<open>read_resource\<close>.\<close>

definition resource_handlers ::
  "(string \<times> (server \<Rightarrow> json \<Rightarrow> env \<Rightarrow> (py_exn + response) \<times> server)) list" where
  "resource_handlers =
     [(''list_boards'', \<lambda>st p w. list_boards st p (clock_check w) (reply w) (clock_store w)),
      (''get_board_structure'', \<lambda>st p w.
         get_board_structure st p (clock_check w) (reply w) (clock_store w) (py_str w)),
      (''list_items_by_board'', \<lambda>st p w. list_items_by_board st p (reply w)),
      (''list_items_by_status'', \<lambda>st p w.
         list_items_by_status st p (clock_check w) (structure_reply w) (clock_store w)
           (py_str w) (reply w) (str_lower w)),
      (''list_overdue_items'', \<lambda>st p w. list_overdue_items st p (reply w)),
      (''get_user_details'', \<lambda>st p w.
         get_user_details st p (clock_check w) (reply w) (clock_store w)),
      (''get_user_workload'', \<lambda>st p w. get_user_workload st p (reply w))]"

text \<open>
  Membership of a value in a dict whose keys are strings: an unhashable value raises, and
  only a string can be one of the keys.
\<close>

definition lookup_handler :: "(string \<times> 'h) list \<Rightarrow> json \<Rightarrow> py_exn + 'h option" where
  "lookup_handler handlers v =
     and_then (hash_key v) (\<lambda>k.
       case k of KStr s \<Rightarrow> Inr (map_of handlers s) | _ \<Rightarrow> Inr None)"

text \<open>\<^verbatim>\<open>read_resource\<close>.\<close>

definition read_resource ::
  "server \<Rightarrow> json \<Rightarrow> json \<Rightarrow> env \<Rightarrow> (py_exn + response) \<times> server" where
  "read_resource st resource_id parameters w =
     (let parameters = (if parameters = JNull then JObj [] else parameters) in
      try_pure (lookup_handler resource_handlers resource_id) st (\<lambda>found.
        case found of
          None \<Rightarrow> (Inl (ValueError (ResourceNotFound resource_id)), st)
        | Some handler \<Rightarrow> handler st parameters w))"

subsection \<open>Tools\<close>

text \<open>\<^verbatim>\<open>list_tools\<close>.\<close>

definition list_tools :: response where
  "list_tools = Tools
     [(''create_item'', ''Create a new item on a board''),
      (''update_item_status'', ''Update the status of an item''),
      (''assign_user_to_item'', ''Assign a user to an item''),
      (''add_update_to_item'', ''Add an update/comment to an item'')]"

text \<open>\<^verbatim>\<open>create_item\<close>.\<close>

definition create_item :: "server \<Rightarrow> json \<Rightarrow> upstream \<Rightarrow> (py_exn + response) \<times> server" where
  "create_item st parameters up =
     try_pure (py_getitem parameters ''board_id'') st (\<lambda>board_id.
     try_pure (py_getitem parameters ''item_name'') st (\<lambda>item_name.
     try_pure (py_get parameters ''group_id'' JNull) st (\<lambda>group_id.
     try_pure (py_get parameters ''column_values'' (JObj [])) st (\<lambda>column_values.
     then_run (query_monday_api st up) (\<lambda>result st1.
     try_pure (and_then (py_getitem result ''create_item'') (\<lambda>created.
               and_then (py_getitem created ''id'') (\<lambda>new_id.
               and_then (py_getitem created ''name'') (\<lambda>new_name.
                 Inr (Result (JObj [(''id'', new_id), (''name'', new_name),
                                    (''message'', JStr ''Item created successfully'')])))))) st1
       (\<lambda>r. (Inr r, st1)))))))"

text \<open>\<^verbatim>\<open>update_item_status\<close>.\<close>

definition update_item_status ::
  "server \<Rightarrow> json \<Rightarrow> upstream \<Rightarrow> (py_exn + response) \<times> server" where
  "update_item_status st parameters up =
     try_pure (py_getitem parameters ''item_id'') st (\<lambda>item_id.
     try_pure (py_getitem parameters ''status_column_id'') st (\<lambda>status_column_id.
     try_pure (py_getitem parameters ''new_status'') st (\<lambda>new_status.
     then_run (query_monday_api st up) (\<lambda>result st1.
     try_pure (and_then (py_getitem result ''change_column_value'') (\<lambda>changed.
               and_then (py_getitem changed ''id'') (\<lambda>changed_id.
                 Inr (Result (JObj [(''id'', changed_id),
                                    (''message'', JStr ''Status updated successfully'')]))))) st1
       (\<lambda>r. (Inr r, st1))))))"

text \<open>\<^verbatim>\<open>assign_user_to_item\<close>.\<close>

definition assign_user_to_item ::
  "server \<Rightarrow> json \<Rightarrow> upstream \<Rightarrow> (py_exn + response) \<times> server" where
  "assign_user_to_item st parameters up =
     try_pure (py_getitem parameters ''item_id'') st (\<lambda>item_id.
     try_pure (py_getitem parameters ''user_id'') st (\<lambda>user_id.
     try_pure (py_getitem parameters ''person_column_id'') st (\<lambda>person_column_id.
     then_run (query_monday_api st up) (\<lambda>result st1.
     try_pure (and_then (py_getitem result ''change_column_value'') (\<lambda>changed.
               and_then (py_getitem changed ''id'') (\<lambda>changed_id.
                 Inr (Result (JObj [(''id'', changed_id),
                                    (''message'', JStr ''User assigned successfully'')]))))) st1
       (\<lambda>r. (Inr r, st1))))))"

text \<open>\<^verbatim>\<open>add_update_to_item\<close>.\<close>

definition add_update_to_item ::
  "server \<Rightarrow> json \<Rightarrow> upstream \<Rightarrow> (py_exn + response) \<times> server" where
  "add_update_to_item st parameters up =
     try_pure (py_getitem parameters ''item_id'') st (\<lambda>item_id.
     try_pure (py_getitem parameters ''update_text'') st (\<lambda>update_text.
     then_run (query_monday_api st up) (\<lambda>result st1.
     try_pure (and_then (py_getitem result ''create_update'') (\<lambda>created.
               and_then (py_getitem created ''id'') (\<lambda>created_id.
                 Inr (Result (JObj [(''id'', created_id),
                                    (''message'', JStr ''Update added successfully'')]))))) st1
       (\<lambda>r. (Inr r, st1)))))"

text \<open>The dict \<^verbatim>\<open>tool_handlers\<close> of \<^verbatim>\<open>call_tool\<close>.\<close>

definition tool_handlers ::
  "(string \<times> (server \<Rightarrow> json \<Rightarrow> upstream \<Rightarrow> (py_exn + response) \<times> server)) list" where
  "tool_handlers =
     [(''create_item'', create_item),
      (''update_item_status'', update_item_status),
      (''assign_user_to_item'', assign_user_to_item),
      (''add_update_to_item'', add_update_to_item)]"

text \<open>\<^verbatim>\<open>call_tool\<close>.\<close>

definition call_tool ::
  "server \<Rightarrow> json \<Rightarrow> json \<Rightarrow> upstream \<Rightarrow> (py_exn + response) \<times> server" where
  "call_tool st name parameters up =
     try_pure (lookup_handler tool_handlers name) st (\<lambda>found.
       case found of
         None \<Rightarrow> (Inl (ValueError (ToolNotFound name)), st)
       | Some handler \<Rightarrow> handler st parameters up)"

subsection \<open>Prompts\<close>

text \<open>\<^verbatim>\<open>list_prompts\<close>.\<close>

definition list_prompts :: response where
  "list_prompts = Prompts
     [(''project_initiation'', ''Project Initiation'',
       ''Start a new project with initial tasks and team assignments''),
      (''sprint_planning'', ''Sprint Planning'',
       ''Move items from backlog to current sprint with estimates and priorities''),
      (''risk_management'', ''Risk Management'', ''Identify and escalate tasks at risk'')]"

text \<open>\<^verbatim>\<open>read_prompt\<close>: it reads and writes nothing of the server.\<close>

definition read_prompt :: "json \<Rightarrow> py_exn + response" where
  "read_prompt prompt_id =
     (if prompt_id = JStr ''project_initiation'' then Inr (PromptContent ''project_initiation'')
      else if prompt_id = JStr ''sprint_planning'' then Inr (PromptContent ''sprint_planning'')
      else if prompt_id = JStr ''risk_management'' then Inr (PromptContent ''risk_management'')
      else Inl (ValueError (PromptNotFound prompt_id)))"

subsection \<open>The router\<close>

text \<open>
  The request is a dict. \<^verbatim>\<open>request.get("method")\<close> is \<^verbatim>\<open>None\<close> when the key is
  absent, \<^verbatim>\<open>request.get("params", {})\<close> the empty dict.
\<close>

definition request_method :: "(string \<times> json) list \<Rightarrow> json" where
  "request_method request = (case map_of request ''method'' of None \<Rightarrow> JNull | Some m \<Rightarrow> m)"

definition request_params :: "(string \<times> json) list \<Rightarrow> json" where
  "request_params request = (case map_of request ''params'' of None \<Rightarrow> JObj [] | Some p \<Rightarrow> p)"

text \<open>
  \<^verbatim>\<open>process_request\<close>. The arguments of a call are evaluated from left to right before the
  call, and nothing is caught.
\<close>

definition process_request ::
  "server \<Rightarrow> (string \<times> json) list \<Rightarrow> env \<Rightarrow> (py_exn + response) \<times> server" where
  "process_request st request w =
     (let method = request_method request;
          params = request_params request
      in
        if method = JStr ''ListResources'' then (Inr list_resources, st)
        else if method = JStr ''ReadResource'' then
          try_pure (py_getitem params ''resourceId'') st (\<lambda>resource_id.
          try_pure (py_get params ''parameters'' JNull) st (\<lambda>parameters.
            read_resource st resource_id parameters w))
        else if method = JStr ''ListTools'' then (Inr list_tools, st)
        else if method = JStr ''CallTool'' then
          try_pure (py_getitem params ''name'') st (\<lambda>name.
          try_pure (py_getitem params ''parameters'') st (\<lambda>parameters.
            call_tool st name parameters (reply w)))
        else if method = JStr ''ListPrompts'' then (Inr list_prompts, st)
        else if method = JStr ''ReadPrompt'' then
          try_pure (py_getitem params ''promptId'') st (\<lambda>prompt_id.
            (read_prompt prompt_id, st))
        else (Inl (ValueError (UnsupportedMethod method)), st))"

subsection \<open>Concrete inputs\<close>

text \<open>
  A server started at time 0 whose three caches each hold one entry written at time 100,
  and the surroundings of a request made at time 399 in which the upstream exchange fails.
\<close>

definition demo_server :: server where
  "demo_server =
     \<lparr>rate_limits = init_rate_limits 0,
      boards = [''all'' \<mapsto> \<lparr>timestamp = 100, data = JArr [JStr ''roadmap'']\<rparr>],
      board_structure = [''structure-7'' \<mapsto> \<lparr>timestamp = 100, data = JObj []\<rparr>],
      items = Map.empty,
      users = [KNum 5 \<mapsto> \<lparr>timestamp = 100, data = JStr ''ann''\<rparr>],
      calls = []\<rparr>"

definition demo_env :: env where
  "demo_env =
     \<lparr>clock_check = 399, clock_store = 400, reply = Fails, structure_reply = Fails,
      py_str = (\<lambda>v. ''7''), str_lower = (\<lambda>s. s)\<rparr>"

text \<open>
  An outcome other than the error \<^verbatim>\<open>read_resource\<close> raises for an id that is not a key
  of its handler table.
\<close>

definition no_not_found :: "py_exn + 'a \<Rightarrow> bool" where
  "no_not_found r = (\<forall>x. r \<noteq> Inl (ValueError (ResourceNotFound x)))"

section \<open>Auxiliary facts\<close>

subsection \<open>The rate limiter\<close>

lemma quota_inv_init: "quota_inv (0, init_rate_limits now)"
  by (simp add: quota_inv_def init_rate_limits_def)

lemma quota_inv_run:
  "quota_inv s \<Longrightarrow> run_ops ops s = Some s' \<Longrightarrow> quota_inv s'"
proof (induction ops s rule: run_ops.induct)
  case (1 s)
  then show ?case by simp
next
  case (2 ops held rl)
  show ?case
  proof (cases "fst (check_rate_limit rl)")
    case (Inl e)
    then have same: "check_rate_limit rl = (Inl e, rl)"
      by (auto simp: check_rate_limit_def split: if_splits)
    with 2 show ?thesis by simp
  next
    case (Inr b)
    define rl' where "rl' = snd (check_rate_limit rl)"
    have eq: "check_rate_limit rl = (Inr b, rl')"
      using Inr by (simp add: rl'_def prod_eq_iff)
    have "quota_inv (Suc held, rl')"
      using "2.prems"(1) eq
      by (auto simp: quota_inv_def check_rate_limit_def split: if_splits)
    with 2 eq show ?thesis by simp
  qed
next
  case (3 ops held rl)
  then have pos: "held \<noteq> 0" by (auto split: if_splits)
  have "quota_inv (held - 1, release_rate_limit rl)"
    using "3.prems"(1) pos
    by (auto simp: quota_inv_def release_rate_limit_def)
  with 3 pos show ?case by simp
qed

subsection \<open>Sequencing and the upstream call\<close>

lemma try_pure_simps [simp]:
  "try_pure (Inl e) st f = (Inl e, st)"
  "try_pure (Inr x) st f = f x"
  by (simp_all add: try_pure_def)

lemma then_run_simps [simp]:
  "then_run (Inl e, st) f = (Inl e, st)"
  "then_run (Inr x, st) f = f x st"
  by (simp_all add: then_run_def)

lemma py_contains_obj: "py_contains k (JObj kvs) = Inr (map_of kvs k \<noteq> None)"
  by (simp add: map_of_eq_None_iff)

lemma py_getitem_Inr:
  "py_getitem v k = Inr x \<Longrightarrow> py_contains k v = Inr True"
  by (cases v) (force split: option.splits dest!: map_of_SomeD)+

lemma query_refused:
  "fst (check_rate_limit (rate_limits st)) = Inl e \<Longrightarrow>
     query_monday_api st up = (Inl e, st\<lparr>calls := calls st @ [CheckRateLimit]\<rparr>)"
  by (auto simp add: query_monday_api_def server_check_def check_rate_limit_def split: if_splits)

lemma query_granted:
  "fst (check_rate_limit (rate_limits st)) = Inr b \<Longrightarrow>
     query_monday_api st up =
       ((case up of Fails \<Rightarrow> Inl TransportError | Replies result \<Rightarrow> read_reply result),
        st\<lparr>calls := calls st @ [CheckRateLimit, Post, ReleaseRateLimit],
           rate_limits := (rate_limits st)\<lparr>daily_remaining := daily_remaining (rate_limits st) - 1\<rparr>\<rparr>)"
  by (auto simp add: query_monday_api_def server_check_def server_release_def Let_def
        release_rate_limit_def check_rate_limit_def split: if_splits)

lemma read_reply_errors:
  "map_of body ''errors'' = Some (JArr (JObj err # rest)) \<Longrightarrow> map_of err ''message'' = Some msg \<Longrightarrow>
   read_reply (JObj body) = Inl (ValueError (MondayApiError msg))"
  by (simp add: read_reply_def py_contains_obj del: py_contains.simps)

lemma query_frame:
  "boards (snd (query_monday_api st up)) = boards st"
  "board_structure (snd (query_monday_api st up)) = board_structure st"
  "users (snd (query_monday_api st up)) = users st"
  "items (snd (query_monday_api st up)) = items st"
  by (cases "fst (check_rate_limit (rate_limits st))"; simp add: query_refused query_granted)+

lemma query_calls_grow:
  "calls (snd (query_monday_api st up)) \<noteq> calls st"
  "calls st \<noteq> calls (snd (query_monday_api st up))"
  by (cases "fst (check_rate_limit (rate_limits st))"; simp add: query_refused query_granted)+

subsection \<open>The cached reads\<close>

lemma cached_put:
  "cached (c(k \<mapsto> \<lparr>timestamp = t, data = v\<rparr>)) k now = (if now - t < 300 then Some v else None)"
  by (auto simp: cached_def)

lemma cached_fresh:
  "c k = Some e \<Longrightarrow> now - timestamp e < 300 \<Longrightarrow> cached c k now = Some (data e)"
  by (auto simp: cached_def)

lemma cached_stale:
  "c k = Some e \<Longrightarrow> \<not> now - timestamp e < 300 \<Longrightarrow> cached c k now = None"
  by (auto simp: cached_def)

lemma cached_none:
  "(\<forall>e. c k = Some e \<longrightarrow> \<not> now - timestamp e < 300) \<Longrightarrow> cached c k now = None"
  by (auto simp: cached_def split: option.splits)

lemma list_boards_hit:
  "boards st ''all'' = Some e \<Longrightarrow> now - timestamp e < 300 \<Longrightarrow>
     list_boards st p now up stored = (Inr (Content (data e)), st)"
  by (simp add: list_boards_def cached_fresh)

lemma list_boards_miss:
  assumes "cached (boards st) ''all'' now = None"
  shows "calls (snd (list_boards st p now up stored)) = calls (snd (query_monday_api st up))"
    and "fst (list_boards st p now up stored) = Inl x \<Longrightarrow>
           boards (snd (list_boards st p now up stored)) = boards st"
    and "fst (list_boards st p now up stored) = Inr resp \<Longrightarrow>
           \<exists>v. resp = Content v \<and>
             boards (snd (list_boards st p now up stored))
               = (boards st)(''all'' \<mapsto> \<lparr>timestamp = stored, data = v\<rparr>)"
proof -
  obtain q s1 where q: "query_monday_api st up = (q, s1)"
    by (cases "query_monday_api st up")
  have b1: "boards s1 = boards st"
    using query_frame(1) [of st up] q by simp
  have eq: "list_boards st p now up stored =
      (case q of Inl e \<Rightarrow> (Inl e, s1)
       | Inr result \<Rightarrow>
           (case py_getitem result ''boards'' of Inl e \<Rightarrow> (Inl e, s1)
            | Inr bs \<Rightarrow> (Inr (Content bs),
                s1\<lparr>boards := (boards s1)(''all'' \<mapsto> \<lparr>timestamp = stored, data = bs\<rparr>)\<rparr>)))"
    using assms by (simp add: list_boards_def q then_run_def try_pure_def split: sum.splits)
  show "calls (snd (list_boards st p now up stored)) = calls (snd (query_monday_api st up))"
    by (simp add: eq q split: sum.splits)
  show "fst (list_boards st p now up stored) = Inl x \<Longrightarrow>
           boards (snd (list_boards st p now up stored)) = boards st"
    by (simp add: eq b1 split: sum.splits)
  show "fst (list_boards st p now up stored) = Inr resp \<Longrightarrow>
           \<exists>v. resp = Content v \<and>
             boards (snd (list_boards st p now up stored))
               = (boards st)(''all'' \<mapsto> \<lparr>timestamp = stored, data = v\<rparr>)"
    by (auto simp add: eq b1 split: sum.splits)
qed

lemma list_boards_iff:
  assumes "boards st ''all'' = Some e"
  shows "list_boards st p now up stored = (Inr (Content (data e)), st) \<longleftrightarrow> now - timestamp e < 300"
proof
  assume "now - timestamp e < 300"
  with assms show "list_boards st p now up stored = (Inr (Content (data e)), st)"
    by (rule list_boards_hit)
next
  assume r: "list_boards st p now up stored = (Inr (Content (data e)), st)"
  show "now - timestamp e < 300"
  proof (rule ccontr)
    assume "\<not> now - timestamp e < 300"
    with assms have "cached (boards st) ''all'' now = None" by (rule cached_stale)
    from list_boards_miss(1) [OF this, of p up stored] r
    show False by (simp add: query_calls_grow)
  qed
qed

lemma get_user_details_hit:
  "py_getitem p ''user_id'' = Inr uid \<Longrightarrow> hash_key uid = Inr k \<Longrightarrow>
   users st k = Some e \<Longrightarrow> now - timestamp e < 300 \<Longrightarrow>
     get_user_details st p now up stored = (Inr (Content (data e)), st)"
  by (simp add: get_user_details_def py_getitem_Inr cached_fresh)

lemma get_user_details_miss:
  assumes "py_getitem p ''user_id'' = Inr uid" "hash_key uid = Inr k"
    and "cached (users st) k now = None"
  shows "calls (snd (get_user_details st p now up stored)) = calls (snd (query_monday_api st up))"
    and "fst (get_user_details st p now up stored) = Inl x \<Longrightarrow>
           users (snd (get_user_details st p now up stored)) = users st"
    and "fst (get_user_details st p now up stored) = Inr resp \<Longrightarrow>
           \<exists>v. resp = Content v \<and>
             users (snd (get_user_details st p now up stored))
               = (users st)(k \<mapsto> \<lparr>timestamp = stored, data = v\<rparr>)"
proof -
  obtain q s1 where q: "query_monday_api st up = (q, s1)"
    by (cases "query_monday_api st up")
  have b1: "users s1 = users st"
    using query_frame(3) [of st up] q by simp
  have eq: "get_user_details st p now up stored =
      (case q of Inl e \<Rightarrow> (Inl e, s1)
       | Inr result \<Rightarrow>
           (case and_then (py_getitem result ''users'') py_first of Inl e \<Rightarrow> (Inl e, s1)
            | Inr u \<Rightarrow> (Inr (Content u),
                s1\<lparr>users := (users s1)(k \<mapsto> \<lparr>timestamp = stored, data = u\<rparr>)\<rparr>)))"
    using assms
    by (simp add: get_user_details_def py_getitem_Inr q then_run_def try_pure_def
          split: sum.splits)
  show "calls (snd (get_user_details st p now up stored)) = calls (snd (query_monday_api st up))"
    by (simp add: eq q split: sum.splits)
  show "fst (get_user_details st p now up stored) = Inl x \<Longrightarrow>
           users (snd (get_user_details st p now up stored)) = users st"
    by (simp add: eq b1 split: sum.splits)
  show "fst (get_user_details st p now up stored) = Inr resp \<Longrightarrow>
           \<exists>v. resp = Content v \<and>
             users (snd (get_user_details st p now up stored))
               = (users st)(k \<mapsto> \<lparr>timestamp = stored, data = v\<rparr>)"
    by (auto simp add: eq b1 split: sum.splits)
qed

lemma get_user_details_iff:
  assumes "py_getitem p ''user_id'' = Inr uid" "hash_key uid = Inr k" "users st k = Some e"
  shows "get_user_details st p now up stored = (Inr (Content (data e)), st)
           \<longleftrightarrow> now - timestamp e < 300"
proof
  assume "now - timestamp e < 300"
  with assms show "get_user_details st p now up stored = (Inr (Content (data e)), st)"
    by (simp add: get_user_details_hit)
next
  assume r: "get_user_details st p now up stored = (Inr (Content (data e)), st)"
  show "now - timestamp e < 300"
  proof (rule ccontr)
    assume "\<not> now - timestamp e < 300"
    with assms(3) have "cached (users st) k now = None" by (rule cached_stale)
    from get_user_details_miss(1) [OF assms(1,2) this, of up stored] r
    show False by (simp add: query_calls_grow)
  qed
qed

lemma get_board_structure_hit:
  "py_getitem p ''board_id'' = Inr bid \<Longrightarrow>
   board_structure st (''structure-'' @ str_of bid) = Some e \<Longrightarrow> now - timestamp e < 300 \<Longrightarrow>
     get_board_structure st p now up stored str_of = (Inr (Content (data e)), st)"
  by (simp add: get_board_structure_def py_getitem_Inr cached_fresh)

lemma get_board_structure_miss:
  assumes "py_getitem p ''board_id'' = Inr bid"
    and "cached (board_structure st) (''structure-'' @ str_of bid) now = None"
  shows "calls (snd (get_board_structure st p now up stored str_of))
           = calls (snd (query_monday_api st up))"
    and "fst (get_board_structure st p now up stored str_of) = Inl x \<Longrightarrow>
           board_structure (snd (get_board_structure st p now up stored str_of))
             = board_structure st"
    and "fst (get_board_structure st p now up stored str_of) = Inr resp \<Longrightarrow>
           \<exists>v. resp = Content v \<and>
             board_structure (snd (get_board_structure st p now up stored str_of))
               = (board_structure st)(''structure-'' @ str_of bid
                    \<mapsto> \<lparr>timestamp = stored, data = v\<rparr>)"
proof -
  obtain q s1 where q: "query_monday_api st up = (q, s1)"
    by (cases "query_monday_api st up")
  have b1: "board_structure s1 = board_structure st"
    using query_frame(2) [of st up] q by simp
  have eq: "get_board_structure st p now up stored str_of =
      (case q of Inl e \<Rightarrow> (Inl e, s1)
       | Inr result \<Rightarrow>
           (case and_then (py_getitem result ''boards'') py_first of Inl e \<Rightarrow> (Inl e, s1)
            | Inr bs \<Rightarrow> (Inr (Content bs),
                s1\<lparr>board_structure := (board_structure s1)(''structure-'' @ str_of bid
                      \<mapsto> \<lparr>timestamp = stored, data = bs\<rparr>)\<rparr>)))"
    using assms
    by (simp add: get_board_structure_def py_getitem_Inr q then_run_def try_pure_def
          split: sum.splits)
  show "calls (snd (get_board_structure st p now up stored str_of))
           = calls (snd (query_monday_api st up))"
    by (simp add: eq q split: sum.splits)
  show "fst (get_board_structure st p now up stored str_of) = Inl x \<Longrightarrow>
           board_structure (snd (get_board_structure st p now up stored str_of))
             = board_structure st"
    by (simp add: eq b1 split: sum.splits)
  show "fst (get_board_structure st p now up stored str_of) = Inr resp \<Longrightarrow>
           \<exists>v. resp = Content v \<and>
             board_structure (snd (get_board_structure st p now up stored str_of))
               = (board_structure st)(''structure-'' @ str_of bid
                    \<mapsto> \<lparr>timestamp = stored, data = v\<rparr>)"
    by (auto simp add: eq b1 split: sum.splits)
qed

lemma get_board_structure_iff:
  assumes "py_getitem p ''board_id'' = Inr bid"
    and "board_structure st (''structure-'' @ str_of bid) = Some e"
  shows "get_board_structure st p now up stored str_of = (Inr (Content (data e)), st)
           \<longleftrightarrow> now - timestamp e < 300"
proof
  assume "now - timestamp e < 300"
  with assms show "get_board_structure st p now up stored str_of = (Inr (Content (data e)), st)"
    by (simp add: get_board_structure_hit)
next
  assume r: "get_board_structure st p now up stored str_of = (Inr (Content (data e)), st)"
  show "now - timestamp e < 300"
  proof (rule ccontr)
    assume "\<not> now - timestamp e < 300"
    with assms(2) have m: "cached (board_structure st) (''structure-'' @ str_of bid) now = None"
      by (rule cached_stale)
    have "calls (snd (get_board_structure st p now up stored str_of))
            = calls (snd (query_monday_api st up))"
      using assms(1) m by (rule get_board_structure_miss(1))
    with r show False by (simp add: query_calls_grow)
  qed
qed

subsection \<open>No resource handler raises the not-found error\<close>

lemma no_not_found_simps [simp]:
  "no_not_found (Inr v)" "no_not_found (Inl TypeError)" "no_not_found (Inl IndexError)" "no_not_found (Inl AttributeError)"
  "no_not_found (Inl TransportError)" "no_not_found (Inl (KeyError k))"
  "no_not_found (Inl (ValueError (ParameterRequired f)))"
  "no_not_found (Inl (ValueError BoardIdAndStatusRequired))"
  "no_not_found (Inl (ValueError StatusColumnNotFound))"
  "no_not_found (Inl (ValueError (MondayApiError m)))"
  "no_not_found (Inl (ValueError TooManyConcurrent))"
  "no_not_found (Inl (ValueError (RateLimitExceeded t)))"
  by (simp_all add: no_not_found_def)

lemma and_then_no_not_found: "no_not_found r \<Longrightarrow> (\<And>x. no_not_found (f x)) \<Longrightarrow> no_not_found (and_then r f)"
  by (cases r) (auto simp: no_not_found_def)

lemma try_pure_no_not_found:
  "no_not_found r \<Longrightarrow> (\<And>x. no_not_found (fst (f x))) \<Longrightarrow> no_not_found (fst (try_pure r st f))"
  by (cases r) (auto simp: no_not_found_def)

lemma then_run_no_not_found:
  "no_not_found (fst m) \<Longrightarrow> (\<And>x s. no_not_found (fst (f x s))) \<Longrightarrow> no_not_found (fst (then_run m f))"
  by (cases m; cases "fst m") (auto simp: no_not_found_def)

lemma py_ops_no_not_found [simp]:
  "no_not_found (py_getitem v k)" "no_not_found (py_contains k v)" "no_not_found (py_first v)"
  "no_not_found (py_iter v)" "no_not_found (hash_key v)" "no_not_found (py_lower lower v)"
  "no_not_found (loads_content resp)"
       apply (cases v; simp split: option.splits)
      apply (cases v; simp)
     apply (cases v rule: py_first.cases; simp)
    apply (cases v; simp)
   apply (cases v; simp)
  apply (cases v; simp)
  apply (cases resp; simp)
  done

lemma find_status_column_no_not_found [simp]: "no_not_found (find_status_column cols)"
  by (induction cols) (auto intro!: and_then_no_not_found)

lemma filter_by_status_no_not_found [simp]: "no_not_found (filter_by_status lower status its)"
  by (induction its) (auto intro!: and_then_no_not_found)

lemma read_reply_no_not_found [simp]: "no_not_found (read_reply result)"
  unfolding read_reply_def by (auto intro!: and_then_no_not_found)

lemma query_no_not_found [simp]: "no_not_found (fst (query_monday_api st up))"
proof (cases "fst (check_rate_limit (rate_limits st))")
  case (Inl e)
  then have "no_not_found (Inl e :: py_exn + json)"
    by (auto simp: check_rate_limit_def split: if_splits)
  with Inl show ?thesis by (simp add: query_refused)
next
  case (Inr b)
  then show ?thesis by (cases up) (simp_all add: query_granted)
qed

lemma list_boards_no_not_found: "no_not_found (fst (list_boards st p now up stored))"
  unfolding list_boards_def
  by (auto split: option.splits intro!: then_run_no_not_found try_pure_no_not_found)

lemma get_board_structure_no_not_found: "no_not_found (fst (get_board_structure st p now up stored str_of))"
  unfolding get_board_structure_def Let_def
  by (auto split: option.splits intro!: then_run_no_not_found try_pure_no_not_found and_then_no_not_found)

lemma list_items_by_board_no_not_found: "no_not_found (fst (list_items_by_board st p up))"
  unfolding list_items_by_board_def
  by (auto intro!: then_run_no_not_found try_pure_no_not_found and_then_no_not_found)

lemma list_overdue_items_no_not_found: "no_not_found (fst (list_overdue_items st p up))"
  unfolding list_overdue_items_def
  by (auto intro!: then_run_no_not_found try_pure_no_not_found and_then_no_not_found)

lemma get_user_details_no_not_found: "no_not_found (fst (get_user_details st p now up stored))"
  unfolding get_user_details_def
  by (auto split: option.splits intro!: then_run_no_not_found try_pure_no_not_found and_then_no_not_found)

lemma get_user_workload_no_not_found: "no_not_found (fst (get_user_workload st p up))"
  unfolding get_user_workload_def
  by (auto intro!: then_run_no_not_found try_pure_no_not_found and_then_no_not_found)

lemma list_items_by_status_no_not_found:
  "no_not_found (fst (list_items_by_status st p now up1 stored str_of up lower))"
  unfolding list_items_by_status_def
  by (auto split: option.splits simp: get_board_structure_no_not_found
        intro!: then_run_no_not_found try_pure_no_not_found and_then_no_not_found)

section \<open>The claims\<close>

text \<open>
  C1: in every run of \<^verbatim>\<open>query_monday_api\<close> in which \<^verbatim>\<open>_check_rate_limit\<close> returns, the
  calls made are the check, one POST and one release, in that order: \<^verbatim>\<open>_release_rate_limit\<close>
  is called exactly once, and \<open>active_requests\<close> ends where it started. This holds for every
  outcome \<open>up\<close> of the exchange: a reply with data, a reply with an error list, a reply of
  any other shape, a transport failure. When the check raises, its error is what the call
  raises, the check is the only call made, and the release is not called.
\<close>

theorem C1_release_exactly_once:
  "(fst (check_rate_limit (rate_limits st)) = Inr b \<longrightarrow>
      calls (snd (query_monday_api st up)) = calls st @ [CheckRateLimit, Post, ReleaseRateLimit] \<and>
      count_list (calls (snd (query_monday_api st up))) ReleaseRateLimit
        = count_list (calls st) ReleaseRateLimit + 1 \<and>
      active_requests (rate_limits (snd (query_monday_api st up)))
        = active_requests (rate_limits st)) \<and>
   (fst (check_rate_limit (rate_limits st)) = Inl e \<longrightarrow>
      fst (query_monday_api st up) = Inl e \<and>
      calls (snd (query_monday_api st up)) = calls st @ [CheckRateLimit] \<and>
      count_list (calls (snd (query_monday_api st up))) ReleaseRateLimit
        = count_list (calls st) ReleaseRateLimit)"
  by (auto simp: query_refused query_granted)

theorem C1_release_exactly_once_witness:
  "fst (query_monday_api demo_server (Replies (JObj [(''data'', JObj [])]))) = Inr (JObj []) \<and>
   count_list (calls (snd (query_monday_api demo_server
     (Replies (JObj [(''data'', JObj [])]))))) ReleaseRateLimit = 1 \<and>
   fst (query_monday_api demo_server
     (Replies (JObj [(''errors'', JArr [JObj [(''message'', JStr ''denied'')]])])))
     = Inl (ValueError (MondayApiError (JStr ''denied''))) \<and>
   count_list (calls (snd (query_monday_api demo_server
     (Replies (JObj [(''errors'', JArr [JObj [(''message'', JStr ''denied'')]])])))))
     ReleaseRateLimit = 1 \<and>
   fst (query_monday_api demo_server Fails) = Inl TransportError \<and>
   calls (snd (query_monday_api demo_server Fails)) = [CheckRateLimit, Post, ReleaseRateLimit] \<and>
   count_list (calls (snd (query_monday_api demo_server Fails))) ReleaseRateLimit = 1 \<and>
   active_requests (rate_limits (snd (query_monday_api demo_server Fails))) = 0 \<and>
   fst (query_monday_api (demo_server\<lparr>rate_limits :=
       \<lparr>daily_remaining = 0, reset_time = 86400, active_requests = 0\<rparr>\<rparr>) Fails)
     = Inl (ValueError (RateLimitExceeded 86400)) \<and>
   calls (snd (query_monday_api (demo_server\<lparr>rate_limits :=
       \<lparr>daily_remaining = 0, reset_time = 86400, active_requests = 0\<rparr>\<rparr>) Fails))
     = [CheckRateLimit] \<and>
   count_list (calls (snd (query_monday_api (demo_server\<lparr>rate_limits :=
       \<lparr>daily_remaining = 0, reset_time = 86400, active_requests = 0\<rparr>\<rparr>) Fails)))
     ReleaseRateLimit = 0"
proof -
  have a: "fst (check_rate_limit (rate_limits demo_server)) = Inr True"
    by (simp add: demo_server_def init_rate_limits_def check_rate_limit_def)
  have b: "fst (check_rate_limit (rate_limits (demo_server\<lparr>rate_limits :=
       \<lparr>daily_remaining = 0, reset_time = 86400, active_requests = 0\<rparr>\<rparr>)))
     = Inl (ValueError (RateLimitExceeded 86400))"
    by (simp add: check_rate_limit_def)
  have c: "calls demo_server = []" "active_requests (rate_limits demo_server) = 0"
    by (simp_all add: demo_server_def init_rate_limits_def)
  have d: "fst (query_monday_api demo_server (Replies (JObj [(''data'', JObj [])])))
      = Inr (JObj [])"
    "fst (query_monday_api demo_server
       (Replies (JObj [(''errors'', JArr [JObj [(''message'', JStr ''denied'')]])])))
     = Inl (ValueError (MondayApiError (JStr ''denied'')))"
    "fst (query_monday_api demo_server Fails) = Inl TransportError"
    using a by (simp_all add: query_granted read_reply_def)
  show ?thesis
    using a b c d
      C1_release_exactly_once [of demo_server True "Replies (JObj [(''data'', JObj [])])"]
      C1_release_exactly_once [of demo_server True
        "Replies (JObj [(''errors'', JArr [JObj [(''message'', JStr ''denied'')]])])"]
      C1_release_exactly_once [of demo_server True Fails]
      C1_release_exactly_once [of "demo_server\<lparr>rate_limits :=
         \<lparr>daily_remaining = 0, reset_time = 86400, active_requests = 0\<rparr>\<rparr>" _
         Fails "ValueError (RateLimitExceeded 86400)"]
    by simp
qed

text \<open>
  C2 (the code against the claim): \<^verbatim>\<open>_check_rate_limit\<close> takes no clock reading. Whatever the
  state, the call leaves \<open>reset_time\<close> as it was and never raises \<open>daily_remaining\<close>. With the
  allowance used up and the reset instant 86400 stored, it raises the rate-limit error that
  names 86400 and leaves the state as it was, at whatever time it is called, also after 86400.
\<close>

theorem C2_exhausted_quota_never_resets:
  "reset_time (snd (check_rate_limit rl)) = reset_time rl \<and>
   daily_remaining (snd (check_rate_limit rl)) \<le> daily_remaining rl \<and>
   check_rate_limit \<lparr>daily_remaining = 0, reset_time = 86400, active_requests = 0\<rparr>
     = (Inl (ValueError (RateLimitExceeded 86400)),
        \<lparr>daily_remaining = 0, reset_time = 86400, active_requests = 0\<rparr>)"
  by (simp add: check_rate_limit_def)

text \<open>
  C3: start from the state \<^verbatim>\<open>__init__\<close> builds and run any sequence of acquires and
  correctly paired releases. In the state reached, \<open>active_requests\<close> is at most 10 and
  \<open>daily_remaining\<close> is not negative. Every prefix of such a sequence is such a sequence,
  so the bounds hold at every moment of the run.
\<close>

theorem C3_quota_bounds:
  "run_ops ops (0, init_rate_limits now) = Some (held, rl) \<Longrightarrow>
     active_requests rl \<le> 10 \<and> 0 \<le> daily_remaining rl"
  using quota_inv_run [OF quota_inv_init, of ops now "(held, rl)"]
  by (simp add: quota_inv_def)

theorem C3_quota_bounds_witness:
  "run_ops [Acquire, Acquire, Release, Acquire] (0, init_rate_limits 0)
     = Some (2, \<lparr>daily_remaining = 997, reset_time = 86400, active_requests = 2\<rparr>) \<and>
   active_requests \<lparr>daily_remaining = 997, reset_time = 86400, active_requests = 2\<rparr> \<le> 10 \<and>
   0 \<le> daily_remaining \<lparr>daily_remaining = 997, reset_time = 86400, active_requests = 2\<rparr>"
proof -
  have r: "run_ops [Acquire, Acquire, Release, Acquire] (0, init_rate_limits 0)
     = Some (2, \<lparr>daily_remaining = 997, reset_time = 86400, active_requests = 2\<rparr>)"
    by (simp add: init_rate_limits_def check_rate_limit_def release_rate_limit_def)
  show ?thesis using r C3_quota_bounds [OF r] by simp
qed

text \<open>
  C4: with no daily allowance left, \<^verbatim>\<open>_check_rate_limit\<close> raises the rate-limit error that
  reports the stored reset time; with allowance left and ten or more requests in flight it
  raises the too-many-concurrent-requests error; with allowance left and fewer than ten in
  flight it returns, having taken exactly one from \<open>daily_remaining\<close> and added exactly
  one to \<open>active_requests\<close>, the reset time untouched.
\<close>

theorem C4_acquire_outcomes:
  "(daily_remaining rl = 0 \<longrightarrow>
      fst (check_rate_limit rl) = Inl (ValueError (RateLimitExceeded (reset_time rl)))) \<and>
   (0 < daily_remaining rl \<and> 10 \<le> active_requests rl \<longrightarrow>
      fst (check_rate_limit rl) = Inl (ValueError TooManyConcurrent)) \<and>
   (0 < daily_remaining rl \<and> active_requests rl < 10 \<longrightarrow>
      fst (check_rate_limit rl) = Inr True \<and>
      daily_remaining (snd (check_rate_limit rl)) = daily_remaining rl - 1 \<and>
      active_requests (snd (check_rate_limit rl)) = active_requests rl + 1 \<and>
      reset_time (snd (check_rate_limit rl)) = reset_time rl)"
  by (simp add: check_rate_limit_def)

theorem C4_acquire_outcomes_witness:
  "fst (check_rate_limit \<lparr>daily_remaining = 0, reset_time = 5, active_requests = 0\<rparr>)
     = Inl (ValueError (RateLimitExceeded 5)) \<and>
   fst (check_rate_limit \<lparr>daily_remaining = 7, reset_time = 5, active_requests = 10\<rparr>)
     = Inl (ValueError TooManyConcurrent) \<and>
   fst (check_rate_limit \<lparr>daily_remaining = 7, reset_time = 5, active_requests = 9\<rparr>)
     = Inr True \<and>
   daily_remaining
     (snd (check_rate_limit \<lparr>daily_remaining = 7, reset_time = 5, active_requests = 9\<rparr>)) = 6 \<and>
   active_requests
     (snd (check_rate_limit \<lparr>daily_remaining = 7, reset_time = 5, active_requests = 9\<rparr>)) = 10"
  using C4_acquire_outcomes [of "\<lparr>daily_remaining = 0, reset_time = 5, active_requests = 0\<rparr>"]
    C4_acquire_outcomes [of "\<lparr>daily_remaining = 7, reset_time = 5, active_requests = 10\<rparr>"]
    C4_acquire_outcomes [of "\<lparr>daily_remaining = 7, reset_time = 5, active_requests = 9\<rparr>"]
  by simp

text \<open>
  C5: an entry stored at time \<open>t\<close> is served at time \<open>now\<close> exactly when \<open>now - t < 300\<close>.
  For each of the three cached reads, with an entry \<open>e\<close> under the key: the read returns
  the stored data and leaves the server as it was if and only if \<open>now - timestamp e < 300\<close>.
  With no entry under the key that is younger than 300 seconds (none at all, or a stale
  one, also at exactly \<open>timestamp e + 300\<close>), the read goes through \<^verbatim>\<open>query_monday_api\<close>;
  if it then raises, the cache is what it was, the stale entry still in place; if it
  returns, the entry under the key is overwritten with the fetched data and the time of the
  write. (Timestamps are exact reals here; Python compares floats.)
\<close>

theorem C5_cache_ttl:
  "(cached (c(key \<mapsto> \<lparr>timestamp = t, data = v\<rparr>)) key now = Some v \<longleftrightarrow> now - t < 300) \<and>
   (boards st ''all'' = Some e \<longrightarrow>
      (list_boards st p now up stored = (Inr (Content (data e)), st)
         \<longleftrightarrow> now - timestamp e < 300)) \<and>
   ((\<forall>e. boards st ''all'' = Some e \<longrightarrow> \<not> now - timestamp e < 300) \<longrightarrow>
      calls (snd (list_boards st p now up stored)) = calls (snd (query_monday_api st up)) \<and>
      (fst (list_boards st p now up stored) = Inl x \<longrightarrow>
         boards (snd (list_boards st p now up stored)) = boards st) \<and>
      (fst (list_boards st p now up stored) = Inr resp \<longrightarrow>
         (\<exists>d. resp = Content d \<and> boards (snd (list_boards st p now up stored))
            = (boards st)(''all'' \<mapsto> \<lparr>timestamp = stored, data = d\<rparr>)))) \<and>
   (py_getitem p ''user_id'' = Inr uid \<and> hash_key uid = Inr k \<and> users st k = Some e \<longrightarrow>
      (get_user_details st p now up stored = (Inr (Content (data e)), st)
         \<longleftrightarrow> now - timestamp e < 300)) \<and>
   (py_getitem p ''user_id'' = Inr uid \<and> hash_key uid = Inr k \<and>
    (\<forall>e. users st k = Some e \<longrightarrow> \<not> now - timestamp e < 300) \<longrightarrow>
      calls (snd (get_user_details st p now up stored)) = calls (snd (query_monday_api st up)) \<and>
      (fst (get_user_details st p now up stored) = Inl x \<longrightarrow>
         users (snd (get_user_details st p now up stored)) = users st) \<and>
      (fst (get_user_details st p now up stored) = Inr resp \<longrightarrow>
         (\<exists>d. resp = Content d \<and> users (snd (get_user_details st p now up stored))
            = (users st)(k \<mapsto> \<lparr>timestamp = stored, data = d\<rparr>)))) \<and>
   (py_getitem p ''board_id'' = Inr bid \<and>
    board_structure st (''structure-'' @ str_of bid) = Some e \<longrightarrow>
      (get_board_structure st p now up stored str_of = (Inr (Content (data e)), st)
         \<longleftrightarrow> now - timestamp e < 300)) \<and>
   (py_getitem p ''board_id'' = Inr bid \<and>
    (\<forall>e. board_structure st (''structure-'' @ str_of bid) = Some e
          \<longrightarrow> \<not> now - timestamp e < 300) \<longrightarrow>
      calls (snd (get_board_structure st p now up stored str_of))
        = calls (snd (query_monday_api st up)) \<and>
      (fst (get_board_structure st p now up stored str_of) = Inl x \<longrightarrow>
         board_structure (snd (get_board_structure st p now up stored str_of))
           = board_structure st) \<and>
      (fst (get_board_structure st p now up stored str_of) = Inr resp \<longrightarrow>
         (\<exists>d. resp = Content d \<and>
            board_structure (snd (get_board_structure st p now up stored str_of))
              = (board_structure st)(''structure-'' @ str_of bid
                   \<mapsto> \<lparr>timestamp = stored, data = d\<rparr>))))"
proof (intro conjI impI; (elim conjE)?)
  show "cached (c(key \<mapsto> \<lparr>timestamp = t, data = v\<rparr>)) key now = Some v \<longleftrightarrow> now - t < 300"
    by (simp add: cached_put)
next
  assume "boards st ''all'' = Some e"
  then show "list_boards st p now up stored = (Inr (Content (data e)), st)
         \<longleftrightarrow> now - timestamp e < 300"
    by (rule list_boards_iff)
next
  assume "\<forall>e. boards st ''all'' = Some e \<longrightarrow> \<not> now - timestamp e < 300"
  then have m: "cached (boards st) ''all'' now = None" by (rule cached_none)
  {
    show "calls (snd (list_boards st p now up stored)) = calls (snd (query_monday_api st up))"
      using m by (rule list_boards_miss(1))
  next
    assume "fst (list_boards st p now up stored) = Inl x"
    with m show "boards (snd (list_boards st p now up stored)) = boards st"
      by (rule list_boards_miss(2))
  next
    assume "fst (list_boards st p now up stored) = Inr resp"
    with m show "\<exists>d. resp = Content d \<and> boards (snd (list_boards st p now up stored))
            = (boards st)(''all'' \<mapsto> \<lparr>timestamp = stored, data = d\<rparr>)"
      by (rule list_boards_miss(3))
  }
next
  assume "py_getitem p ''user_id'' = Inr uid" "hash_key uid = Inr k" "users st k = Some e"
  then show "get_user_details st p now up stored = (Inr (Content (data e)), st)
         \<longleftrightarrow> now - timestamp e < 300"
    by (rule get_user_details_iff)
next
  assume a: "py_getitem p ''user_id'' = Inr uid" "hash_key uid = Inr k"
    and "\<forall>e. users st k = Some e \<longrightarrow> \<not> now - timestamp e < 300"
  then have m: "cached (users st) k now = None" by (simp add: cached_none)
  {
    show "calls (snd (get_user_details st p now up stored)) = calls (snd (query_monday_api st up))"
      using a m by (rule get_user_details_miss(1))
  next
    assume "fst (get_user_details st p now up stored) = Inl x"
    with a m show "users (snd (get_user_details st p now up stored)) = users st"
      by (rule get_user_details_miss(2))
  next
    assume "fst (get_user_details st p now up stored) = Inr resp"
    with a m show "\<exists>d. resp = Content d \<and> users (snd (get_user_details st p now up stored))
            = (users st)(k \<mapsto> \<lparr>timestamp = stored, data = d\<rparr>)"
      by (rule get_user_details_miss(3))
  }
next
  assume "py_getitem p ''board_id'' = Inr bid"
    "board_structure st (''structure-'' @ str_of bid) = Some e"
  then show "get_board_structure st p now up stored str_of = (Inr (Content (data e)), st)
         \<longleftrightarrow> now - timestamp e < 300"
    by (rule get_board_structure_iff)
next
  assume a: "py_getitem p ''board_id'' = Inr bid"
    and "\<forall>e. board_structure st (''structure-'' @ str_of bid) = Some e
          \<longrightarrow> \<not> now - timestamp e < 300"
  then have m: "cached (board_structure st) (''structure-'' @ str_of bid) now = None"
    by (simp add: cached_none)
  {
    show "calls (snd (get_board_structure st p now up stored str_of))
        = calls (snd (query_monday_api st up))"
      using a m by (rule get_board_structure_miss(1))
  next
    assume "fst (get_board_structure st p now up stored str_of) = Inl x"
    with a m show "board_structure (snd (get_board_structure st p now up stored str_of))
           = board_structure st"
      by (rule get_board_structure_miss(2))
  next
    assume "fst (get_board_structure st p now up stored str_of) = Inr resp"
    with a m show "\<exists>d. resp = Content d \<and>
            board_structure (snd (get_board_structure st p now up stored str_of))
              = (board_structure st)(''structure-'' @ str_of bid
                   \<mapsto> \<lparr>timestamp = stored, data = d\<rparr>)"
      by (rule get_board_structure_miss(3))
  }
qed

theorem C5_cache_ttl_witness:
  "cached ([''all'' \<mapsto> \<lparr>timestamp = 100, data = JNull\<rparr>]) ''all'' 399 = Some JNull \<and>
   cached ([''all'' \<mapsto> \<lparr>timestamp = 100, data = JNull\<rparr>]) ''all'' 400 \<noteq> Some JNull \<and>
   list_boards demo_server JNull 399 Fails 401
     = (Inr (Content (JArr [JStr ''roadmap''])), demo_server) \<and>
   list_boards demo_server JNull 400 Fails 401
     \<noteq> (Inr (Content (JArr [JStr ''roadmap''])), demo_server) \<and>
   fst (list_boards demo_server JNull 400 Fails 401) = Inl TransportError \<and>
   boards (snd (list_boards demo_server JNull 400 Fails 401)) = boards demo_server \<and>
   get_user_details demo_server (JObj [(''user_id'', JNum 5)]) 399 Fails 401
     = (Inr (Content (JStr ''ann'')), demo_server) \<and>
   get_user_details demo_server (JObj [(''user_id'', JNum 5)]) 400 Fails 401
     \<noteq> (Inr (Content (JStr ''ann'')), demo_server) \<and>
   users (snd (get_user_details demo_server (JObj [(''user_id'', JNum 5)]) 400 Fails 401))
     = users demo_server \<and>
   get_board_structure demo_server (JObj [(''board_id'', JNum 7)]) 399 Fails 401 (\<lambda>v. ''7'')
     = (Inr (Content (JObj [])), demo_server) \<and>
   get_board_structure demo_server (JObj [(''board_id'', JNum 7)]) 400 Fails 401 (\<lambda>v. ''7'')
     \<noteq> (Inr (Content (JObj [])), demo_server) \<and>
   board_structure
       (snd (get_board_structure demo_server (JObj [(''board_id'', JNum 7)]) 400 Fails 401
          (\<lambda>v. ''7'')))
     = board_structure demo_server \<and>
   boards (snd (list_boards demo_server JNull 400
       (Replies (JObj [(''data'', JObj [(''boards'', JArr [])])])) 401))
     = (boards demo_server)(''all'' \<mapsto> \<lparr>timestamp = 401, data = JArr []\<rparr>)"
proof -
  have e: "boards demo_server ''all'' = Some \<lparr>timestamp = 100, data = JArr [JStr ''roadmap'']\<rparr>"
    "board_structure demo_server (''structure-'' @ (\<lambda>v. ''7'') (JNum 7))
       = Some \<lparr>timestamp = 100, data = JObj []\<rparr>"
    "users demo_server (KNum 5) = Some \<lparr>timestamp = 100, data = JStr ''ann''\<rparr>"
    by (simp_all add: demo_server_def)
  have g: "py_getitem (JObj [(''board_id'', JNum 7)]) ''board_id'' = Inr (JNum 7)"
    "py_getitem (JObj [(''user_id'', JNum 5)]) ''user_id'' = Inr (JNum 5)"
    "hash_key (JNum 5) = Inr (KNum 5)"
    by simp_all
  have q: "fst (query_monday_api demo_server Fails) = Inl TransportError"
    by (simp add: query_monday_api_def server_check_def server_release_def
          check_rate_limit_def demo_server_def init_rate_limits_def)
  have f: "fst (list_boards demo_server JNull 400 Fails 401) = Inl TransportError"
    "fst (get_user_details demo_server (JObj [(''user_id'', JNum 5)]) 400 Fails 401)
       = Inl TransportError"
    "fst (get_board_structure demo_server (JObj [(''board_id'', JNum 7)]) 400 Fails 401
           (\<lambda>v. ''7'')) = Inl TransportError"
    using q e
    by (simp_all add: list_boards_def get_user_details_def get_board_structure_def cached_def
          then_run_def split_beta)
  note t1 = C5_cache_ttl [where c = Map.empty and key = "''all''" and t = 100 and v = JNull
      and st = demo_server and up = Fails and stored = 401 and x = TransportError
      and resp = "Content JNull" and uid = "JNum 5" and k = "KNum 5" and bid = "JNum 7"
      and str_of = "\<lambda>v. ''7''"
      and now = 399 and p = "JNull" and e = "\<lparr>timestamp = 100, data = JArr [JStr ''roadmap'']\<rparr>"]
  note t2 = C5_cache_ttl [where c = Map.empty and key = "''all''" and t = 100 and v = JNull
      and st = demo_server and up = Fails and stored = 401 and x = TransportError
      and resp = "Content JNull" and uid = "JNum 5" and k = "KNum 5" and bid = "JNum 7"
      and str_of = "\<lambda>v. ''7''"
      and now = 400 and p = "JNull" and e = "\<lparr>timestamp = 100, data = JArr [JStr ''roadmap'']\<rparr>"]
  note u1 = C5_cache_ttl [where c = Map.empty and key = "''all''" and t = 100 and v = JNull
      and st = demo_server and up = Fails and stored = 401 and x = TransportError
      and resp = "Content JNull" and uid = "JNum 5" and k = "KNum 5" and bid = "JNum 7"
      and str_of = "\<lambda>v. ''7''"
      and now = 399 and p = "JObj [(''user_id'', JNum 5)]" and e = "\<lparr>timestamp = 100, data = JStr ''ann''\<rparr>"]
  note u2 = C5_cache_ttl [where c = Map.empty and key = "''all''" and t = 100 and v = JNull
      and st = demo_server and up = Fails and stored = 401 and x = TransportError
      and resp = "Content JNull" and uid = "JNum 5" and k = "KNum 5" and bid = "JNum 7"
      and str_of = "\<lambda>v. ''7''"
      and now = 400 and p = "JObj [(''user_id'', JNum 5)]" and e = "\<lparr>timestamp = 100, data = JStr ''ann''\<rparr>"]
  note s1 = C5_cache_ttl [where c = Map.empty and key = "''all''" and t = 100 and v = JNull
      and st = demo_server and up = Fails and stored = 401 and x = TransportError
      and resp = "Content JNull" and uid = "JNum 5" and k = "KNum 5" and bid = "JNum 7"
      and str_of = "\<lambda>v. ''7''"
      and now = 399 and p = "JObj [(''board_id'', JNum 7)]" and e = "\<lparr>timestamp = 100, data = JObj []\<rparr>"]
  note s2 = C5_cache_ttl [where c = Map.empty and key = "''all''" and t = 100 and v = JNull
      and st = demo_server and up = Fails and stored = 401 and x = TransportError
      and resp = "Content JNull" and uid = "JNum 5" and k = "KNum 5" and bid = "JNum 7"
      and str_of = "\<lambda>v. ''7''"
      and now = 400 and p = "JObj [(''board_id'', JNum 7)]" and e = "\<lparr>timestamp = 100, data = JObj []\<rparr>"]
  have c1: "cached ([''all'' \<mapsto> \<lparr>timestamp = 100, data = JNull\<rparr>]) ''all'' 399 = Some JNull"
    using t1 by simp
  have c2: "cached ([''all'' \<mapsto> \<lparr>timestamp = 100, data = JNull\<rparr>]) ''all'' 400 \<noteq> Some JNull"
    using t2 by simp
  have b1: "list_boards demo_server JNull 399 Fails 401
     = (Inr (Content (JArr [JStr ''roadmap''])), demo_server)"
    using t1 e by simp
  have b2: "list_boards demo_server JNull 400 Fails 401
     \<noteq> (Inr (Content (JArr [JStr ''roadmap''])), demo_server)"
    using t2 e by simp
  have b3: "boards (snd (list_boards demo_server JNull 400 Fails 401)) = boards demo_server"
    using t2 e f by simp
  have d1: "get_user_details demo_server (JObj [(''user_id'', JNum 5)]) 399 Fails 401
     = (Inr (Content (JStr ''ann'')), demo_server)"
    using u1 e g by simp
  have d2: "get_user_details demo_server (JObj [(''user_id'', JNum 5)]) 400 Fails 401
     \<noteq> (Inr (Content (JStr ''ann'')), demo_server)"
    using u2 e g by simp
  have d3: "users (snd (get_user_details demo_server (JObj [(''user_id'', JNum 5)]) 400 Fails 401))
     = users demo_server"
    using u2 e g f by simp
  have h1: "get_board_structure demo_server (JObj [(''board_id'', JNum 7)]) 399 Fails 401
       (\<lambda>v. ''7'')
     = (Inr (Content (JObj [])), demo_server)"
    using s1 e g by simp
  have h2: "get_board_structure demo_server (JObj [(''board_id'', JNum 7)]) 400 Fails 401
       (\<lambda>v. ''7'')
     \<noteq> (Inr (Content (JObj [])), demo_server)"
    using s2 e g by simp
  have h3: "board_structure
       (snd (get_board_structure demo_server (JObj [(''board_id'', JNum 7)]) 400 Fails 401
          (\<lambda>v. ''7'')))
     = board_structure demo_server"
    using s2 e g f by simp
  have ok: "fst (check_rate_limit (rate_limits demo_server)) = Inr True"
    by (simp add: demo_server_def init_rate_limits_def check_rate_limit_def)
  have r: "fst (list_boards demo_server JNull 400
       (Replies (JObj [(''data'', JObj [(''boards'', JArr [])])])) 401) = Inr (Content (JArr []))"
    using e
    by (simp add: list_boards_def cached_def query_granted [OF ok] read_reply_def)
  note t3 = C5_cache_ttl [where c = Map.empty and key = "''all''" and t = 100 and v = JNull
      and st = demo_server and stored = 401 and x = TransportError
      and resp = "Content (JArr [])" and uid = "JNum 5" and k = "KNum 5" and bid = "JNum 7"
      and str_of = "\<lambda>v. ''7''" and now = 400 and p = JNull
      and up = "Replies (JObj [(''data'', JObj [(''boards'', JArr [])])])"
      and e = "\<lparr>timestamp = 100, data = JArr [JStr ''roadmap'']\<rparr>"]
  have b4: "boards (snd (list_boards demo_server JNull 400
       (Replies (JObj [(''data'', JObj [(''boards'', JArr [])])])) 401))
     = (boards demo_server)(''all'' \<mapsto> \<lparr>timestamp = 401, data = JArr []\<rparr>)"
    using t3 e r by simp
  show ?thesis
    using c1 c2 b1 b2 f(1) b3 d1 d2 d3 h1 h2 h3 b4 by simp
qed

text \<open>
  C6 (as amended): when \<^verbatim>\<open>params\<close> is a dict that lacks \<^verbatim>\<open>resourceId\<close> for ReadResource,
  \<^verbatim>\<open>name\<close> for CallTool, \<^verbatim>\<open>parameters\<close> for a CallTool that has a name, or \<^verbatim>\<open>promptId\<close> for
  ReadPrompt, \<^verbatim>\<open>process_request\<close> raises the \<^verbatim>\<open>KeyError\<close> of the subscript, which carries the
  absent field's name. No handler has run and the server is unchanged. The router builds no
  error of its own for a missing field and catches nothing.
\<close>

theorem C6_missing_field_raises_KeyError:
  "request_params request = JObj ps \<Longrightarrow>
   (request_method request = JStr ''ReadResource'' \<and> map_of ps ''resourceId'' = None \<longrightarrow>
      process_request st request w = (Inl (KeyError (JStr ''resourceId'')), st)) \<and>
   (request_method request = JStr ''CallTool'' \<and> map_of ps ''name'' = None \<longrightarrow>
      process_request st request w = (Inl (KeyError (JStr ''name'')), st)) \<and>
   (request_method request = JStr ''CallTool'' \<and> map_of ps ''name'' = Some n \<and>
    map_of ps ''parameters'' = None \<longrightarrow>
      process_request st request w = (Inl (KeyError (JStr ''parameters'')), st)) \<and>
   (request_method request = JStr ''ReadPrompt'' \<and> map_of ps ''promptId'' = None \<longrightarrow>
      process_request st request w = (Inl (KeyError (JStr ''promptId'')), st))"
  by (simp add: process_request_def)

theorem C6_missing_field_raises_KeyError_witness:
  "process_request demo_server [(''method'', JStr ''ReadResource'')] demo_env
     = (Inl (KeyError (JStr ''resourceId'')), demo_server) \<and>
   process_request demo_server
       [(''method'', JStr ''CallTool''), (''params'', JObj [(''parameters'', JObj [])])] demo_env
     = (Inl (KeyError (JStr ''name'')), demo_server) \<and>
   process_request demo_server
       [(''method'', JStr ''CallTool''), (''params'', JObj [(''name'', JStr ''create_item'')])]
       demo_env
     = (Inl (KeyError (JStr ''parameters'')), demo_server) \<and>
   process_request demo_server
       [(''method'', JStr ''ReadPrompt''), (''params'', JObj [(''id'', JStr ''sprint_planning'')])]
       demo_env
     = (Inl (KeyError (JStr ''promptId'')), demo_server)"
proof -
  have a: "request_params [(''method'', JStr ''ReadResource'')] = JObj []"
    "request_params
       [(''method'', JStr ''CallTool''), (''params'', JObj [(''parameters'', JObj [])])]
       = JObj [(''parameters'', JObj [])]"
    "request_params
       [(''method'', JStr ''CallTool''), (''params'', JObj [(''name'', JStr ''create_item'')])]
       = JObj [(''name'', JStr ''create_item'')]"
    "request_params
       [(''method'', JStr ''ReadPrompt''), (''params'', JObj [(''id'', JStr ''sprint_planning'')])]
       = JObj [(''id'', JStr ''sprint_planning'')]"
    by (simp_all add: request_params_def)
  have b: "request_method [(''method'', JStr ''ReadResource'')] = JStr ''ReadResource''"
    "request_method
       [(''method'', JStr ''CallTool''), (''params'', JObj [(''parameters'', JObj [])])]
       = JStr ''CallTool''"
    "request_method
       [(''method'', JStr ''CallTool''), (''params'', JObj [(''name'', JStr ''create_item'')])]
       = JStr ''CallTool''"
    "request_method
       [(''method'', JStr ''ReadPrompt''), (''params'', JObj [(''id'', JStr ''sprint_planning'')])]
       = JStr ''ReadPrompt''"
    by (simp_all add: request_method_def)
  show ?thesis
    using b
      C6_missing_field_raises_KeyError [OF a(1), of demo_server demo_env]
      C6_missing_field_raises_KeyError [OF a(2), of demo_server demo_env]
      C6_missing_field_raises_KeyError [OF a(3), of demo_server demo_env "JStr ''create_item''"]
      C6_missing_field_raises_KeyError [OF a(4), of demo_server demo_env]
    by simp
qed

text \<open>
  C6 as stated fails: for ReadResource with \<^verbatim>\<open>params = {}\<close> what leaves
  \<^verbatim>\<open>process_request\<close> is the uncaught \<^verbatim>\<open>KeyError('resourceId')\<close>, not one of the
  \<^verbatim>\<open>ValueError\<close> descriptors the server raises for a missing parameter.
\<close>

theorem C6_missing_parameter_counterexample:
  "fst (process_request demo_server
          [(''method'', JStr ''ReadResource''), (''params'', JObj [])] demo_env)
     = Inl (KeyError (JStr ''resourceId'')) \<and>
   fst (process_request demo_server
          [(''method'', JStr ''ReadResource''), (''params'', JObj [])] demo_env)
     \<noteq> Inl (ValueError (ParameterRequired ''resourceId''))"
  by (simp add: process_request_def request_method_def request_params_def)

text \<open>
  C7: when the check has let the request through and the reply is a dict whose \<^verbatim>\<open>errors\<close>
  is a list that starts with a dict holding a \<^verbatim>\<open>message\<close>, \<^verbatim>\<open>query_monday_api\<close> raises the
  upstream error carrying exactly that first message, whatever else the reply holds (data,
  further errors): no data is returned. One POST was made, so nothing was retried.
\<close>

theorem C7_upstream_error_list:
  "fst (check_rate_limit (rate_limits st)) = Inr b \<Longrightarrow>
   map_of body ''errors'' = Some (JArr (JObj err # rest)) \<Longrightarrow>
   map_of err ''message'' = Some msg \<Longrightarrow>
     fst (query_monday_api st (Replies (JObj body))) = Inl (ValueError (MondayApiError msg)) \<and>
     count_list (calls (snd (query_monday_api st (Replies (JObj body))))) Post
       = count_list (calls st) Post + 1"
  by (simp add: query_granted read_reply_errors)

theorem C7_upstream_error_list_witness:
  "fst (query_monday_api demo_server
      (Replies (JObj [(''data'', JObj [(''boards'', JArr [])]),
                      (''errors'', JArr [JObj [(''message'', JStr ''bad query'')],
                                         JObj [(''message'', JStr ''second'')]])])))
     = Inl (ValueError (MondayApiError (JStr ''bad query''))) \<and>
   count_list (calls (snd (query_monday_api demo_server
      (Replies (JObj [(''data'', JObj [(''boards'', JArr [])]),
                      (''errors'', JArr [JObj [(''message'', JStr ''bad query'')],
                                         JObj [(''message'', JStr ''second'')]])]))))) Post = 1"
proof -
  have a: "fst (check_rate_limit (rate_limits demo_server)) = Inr True"
    by (simp add: demo_server_def init_rate_limits_def check_rate_limit_def)
  have b: "map_of [(''data'', JObj [(''boards'', JArr [])]),
                   (''errors'', JArr [JObj [(''message'', JStr ''bad query'')],
                                      JObj [(''message'', JStr ''second'')]])] ''errors''
     = Some (JArr (JObj [(''message'', JStr ''bad query'')]
                   # [JObj [(''message'', JStr ''second'')]]))"
    by simp
  have c: "map_of [(''message'', JStr ''bad query'')] ''message'' = Some (JStr ''bad query'')"
    by simp
  have d: "calls demo_server = []" by (simp add: demo_server_def)
  show ?thesis
    using C7_upstream_error_list [OF a b c] d by simp
qed

text \<open>
  C8: every id in the catalog of \<^verbatim>\<open>list_resources\<close> is a key of \<^verbatim>\<open>resource_handlers\<close>:
  \<^verbatim>\<open>read_resource\<close> with that id is the call of the handler found there, and whatever the
  handler does, the outcome is not the resource-not-found error.
\<close>

theorem C8_listed_resources_resolve:
  "list_resources = Resources catalog \<Longrightarrow> (rid, name, descr) \<in> set catalog \<Longrightarrow>
     (\<exists>handler. lookup_handler resource_handlers (JStr rid) = Inr (Some handler) \<and>
        read_resource st (JStr rid) parameters w
          = handler st (if parameters = JNull then JObj [] else parameters) w) \<and>
     fst (read_resource st (JStr rid) parameters w) \<noteq> Inl (ValueError (ResourceNotFound x))"
proof -
  assume cat: "list_resources = Resources catalog" and mem: "(rid, name, descr) \<in> set catalog"
  from cat mem have rid: "rid \<in> {''list_boards'', ''get_board_structure'', ''list_items_by_board'',
      ''list_items_by_status'', ''list_overdue_items'', ''get_user_details'',
      ''get_user_workload''}"
    by (auto simp: list_resources_def)
  then obtain handler where h: "map_of resource_handlers rid = Some handler"
    by (auto simp: resource_handlers_def)
  have rr: "read_resource st (JStr rid) parameters w
          = handler st (if parameters = JNull then JObj [] else parameters) w"
    by (simp add: read_resource_def lookup_handler_def h Let_def)
  have nf: "no_not_found (fst (handler st p w))" for p
    using rid h
    by (auto simp: resource_handlers_def list_boards_no_not_found get_board_structure_no_not_found
          list_items_by_board_no_not_found list_items_by_status_no_not_found list_overdue_items_no_not_found
          get_user_details_no_not_found get_user_workload_no_not_found)
  have "lookup_handler resource_handlers (JStr rid) = Inr (Some handler)"
    by (simp add: lookup_handler_def h)
  moreover have "fst (read_resource st (JStr rid) parameters w)
      \<noteq> Inl (ValueError (ResourceNotFound x))"
    using nf [of "if parameters = JNull then JObj [] else parameters"]
    unfolding rr no_not_found_def by blast
  ultimately show ?thesis using rr by blast
qed

theorem C8_listed_resources_resolve_witness:
  "list_resources = Resources
     [(''list_boards'', ''Boards'', ''List all accessible boards''),
      (''get_board_structure'', ''Board Structure'', ''Get the structure of a specific board''),
      (''list_items_by_board'', ''Items by Board'', ''List all items in a specific board''),
      (''list_items_by_status'', ''Items by Status'', ''List items filtered by status''),
      (''list_overdue_items'', ''Overdue Items'', ''List items past their due dates''),
      (''get_user_details'', ''User Details'', ''Get details about team members''),
      (''get_user_workload'', ''User Workload'', ''View task distribution across team members'')] \<and>
   fst (read_resource demo_server (JStr ''get_user_details'') JNull demo_env)
     = Inl (ValueError (ParameterRequired ''user_id'')) \<and>
   fst (read_resource demo_server (JStr ''get_user_details'') JNull demo_env)
     \<noteq> Inl (ValueError (ResourceNotFound (JStr ''get_user_details'')))"
proof -
  have a: "list_resources = Resources
     [(''list_boards'', ''Boards'', ''List all accessible boards''),
      (''get_board_structure'', ''Board Structure'', ''Get the structure of a specific board''),
      (''list_items_by_board'', ''Items by Board'', ''List all items in a specific board''),
      (''list_items_by_status'', ''Items by Status'', ''List items filtered by status''),
      (''list_overdue_items'', ''Overdue Items'', ''List items past their due dates''),
      (''get_user_details'', ''User Details'', ''Get details about team members''),
      (''get_user_workload'', ''User Workload'', ''View task distribution across team members'')]"
    by (simp add: list_resources_def)
  have b: "(''get_user_details'', ''User Details'', ''Get details about team members'') \<in> set
     [(''list_boards'', ''Boards'', ''List all accessible boards''),
      (''get_board_structure'', ''Board Structure'', ''Get the structure of a specific board''),
      (''list_items_by_board'', ''Items by Board'', ''List all items in a specific board''),
      (''list_items_by_status'', ''Items by Status'', ''List items filtered by status''),
      (''list_overdue_items'', ''Overdue Items'', ''List items past their due dates''),
      (''get_user_details'', ''User Details'', ''Get details about team members''),
      (''get_user_workload'', ''User Workload'', ''View task distribution across team members'')]"
    by simp
  have c: "fst (read_resource demo_server (JStr ''get_user_details'') JNull demo_env)
     = Inl (ValueError (ParameterRequired ''user_id''))"
    by (simp add: read_resource_def lookup_handler_def resource_handlers_def
          get_user_details_def)
  show ?thesis
    using a c C8_listed_resources_resolve [OF a b, of demo_server JNull demo_env
        "JStr ''get_user_details''"]
    by simp
qed

text \<open>
  C9: whenever \<^verbatim>\<open>_check_rate_limit\<close> raises, for either reason, the rate-limit state after
  the call is the state before it: \<open>daily_remaining\<close>, \<open>active_requests\<close> and
  \<open>reset_time\<close> are all unchanged.
\<close>

theorem C9_failed_acquire_keeps_state:
  "fst (check_rate_limit rl) = Inl e \<Longrightarrow> snd (check_rate_limit rl) = rl"
  by (auto simp: check_rate_limit_def split: if_splits)

theorem C9_failed_acquire_keeps_state_witness:
  "fst (check_rate_limit \<lparr>daily_remaining = 3, reset_time = 5, active_requests = 12\<rparr>)
     = Inl (ValueError TooManyConcurrent) \<and>
   snd (check_rate_limit \<lparr>daily_remaining = 3, reset_time = 5, active_requests = 12\<rparr>)
     = \<lparr>daily_remaining = 3, reset_time = 5, active_requests = 12\<rparr> \<and>
   fst (check_rate_limit \<lparr>daily_remaining = 0, reset_time = 5, active_requests = 2\<rparr>)
     = Inl (ValueError (RateLimitExceeded 5)) \<and>
   snd (check_rate_limit \<lparr>daily_remaining = 0, reset_time = 5, active_requests = 2\<rparr>)
     = \<lparr>daily_remaining = 0, reset_time = 5, active_requests = 2\<rparr>"
proof -
  have a: "fst (check_rate_limit \<lparr>daily_remaining = 3, reset_time = 5, active_requests = 12\<rparr>)
     = Inl (ValueError TooManyConcurrent)"
    by (simp add: check_rate_limit_def)
  have b: "fst (check_rate_limit \<lparr>daily_remaining = 0, reset_time = 5, active_requests = 2\<rparr>)
     = Inl (ValueError (RateLimitExceeded 5))"
    by (simp add: check_rate_limit_def)
  show ?thesis
    using a b C9_failed_acquire_keeps_state [OF a] C9_failed_acquire_keeps_state [OF b]
    by simp
qed

text \<open>
  C10: when \<^verbatim>\<open>list_boards\<close>, \<^verbatim>\<open>get_board_structure\<close> or \<^verbatim>\<open>get_user_details\<close> finds an
  entry under its key that is younger than 300 seconds, it returns that entry's data and
  the server after the call is the server before it: the rate-limit state, every cache
  entry with its timestamp, and the record of calls, so no check, POST or release happened.
  The outcome does not depend on what the upstream would have replied.
\<close>

theorem C10_cache_hit_frame:
  "(boards st ''all'' = Some e \<and> now - timestamp e < 300 \<longrightarrow>
      list_boards st p now up stored = (Inr (Content (data e)), st)) \<and>
   (py_getitem p ''board_id'' = Inr bid \<and>
    board_structure st (''structure-'' @ str_of bid) = Some e \<and> now - timestamp e < 300 \<longrightarrow>
      get_board_structure st p now up stored str_of = (Inr (Content (data e)), st)) \<and>
   (py_getitem p ''user_id'' = Inr uid \<and> hash_key uid = Inr k \<and>
    users st k = Some e \<and> now - timestamp e < 300 \<longrightarrow>
      get_user_details st p now up stored = (Inr (Content (data e)), st))"
  by (simp add: list_boards_hit get_board_structure_hit get_user_details_hit)

theorem C10_cache_hit_frame_witness:
  "list_boards demo_server JNull 399 (Replies JNull) 400
     = (Inr (Content (JArr [JStr ''roadmap''])), demo_server) \<and>
   get_board_structure demo_server (JObj [(''board_id'', JNum 7)]) 399 (Replies JNull) 400
       (\<lambda>v. ''7'')
     = (Inr (Content (JObj [])), demo_server) \<and>
   get_user_details demo_server (JObj [(''user_id'', JNum 5)]) 399 (Replies JNull) 400
     = (Inr (Content (JStr ''ann'')), demo_server)"
proof -
  have a: "boards demo_server ''all'' = Some \<lparr>timestamp = 100, data = JArr [JStr ''roadmap'']\<rparr>"
    "board_structure demo_server (''structure-'' @ (\<lambda>v. ''7'') (JNum 7))
       = Some \<lparr>timestamp = 100, data = JObj []\<rparr>"
    "users demo_server (KNum 5) = Some \<lparr>timestamp = 100, data = JStr ''ann''\<rparr>"
    by (simp_all add: demo_server_def)
  have b: "py_getitem (JObj [(''board_id'', JNum 7)]) ''board_id'' = Inr (JNum 7)"
    "py_getitem (JObj [(''user_id'', JNum 5)]) ''user_id'' = Inr (JNum 5)"
    "hash_key (JNum 5) = Inr (KNum 5)"
    by simp_all
  show ?thesis
    using a b
      C10_cache_hit_frame [of demo_server "\<lparr>timestamp = 100, data = JArr [JStr ''roadmap'']\<rparr>"
        399 JNull "Replies JNull" 400]
      C10_cache_hit_frame [of demo_server "\<lparr>timestamp = 100, data = JObj []\<rparr>"
        399 "JObj [(''board_id'', JNum 7)]" "Replies JNull" 400 "JNum 7" "\<lambda>v. ''7''"]
      C10_cache_hit_frame [of demo_server "\<lparr>timestamp = 100, data = JStr ''ann''\<rparr>"
        399 "JObj [(''user_id'', JNum 5)]" "Replies JNull" 400 _ _ "JNum 5" "KNum 5"]
    by simp
qed

end
